theory Spec2Isabelle
  imports Complex_Main "HOL-Library.Sublist"
begin

section \<open>Lease and task-lock coordination of gestione-slot-kwh\<close>

text \<open>
  A shallow embedding of \<^verbatim>\<open>utils/lockManager.js\<close>, \<^verbatim>\<open>utils/localLockManager.js\<close>
  and the parts of \<^verbatim>\<open>utils/appManager.js\<close> and \<^verbatim>\<open>utils/botManager.js\<close> that drive
  them.

  Conventions of the embedding.
  \<^item> Time is \<open>Date.now()\<close> in milliseconds, an \<open>int\<close>. One call of an operation is
    one instant: every \<open>Date.now()\<close> and \<open>new Date()\<close> inside it reads the same
    \<open>now\<close>, which the operation takes as an argument.
  \<^item> The two Mongo collections \<open>Lock\<close> and \<open>TaskLock\<close> are lists of
    documents in natural (insertion) order. \<open>findOne\<close> returns the first match
    together with its position, which stands for the document's \<open>_id\<close>;
    \<open>save\<close> of a new document appends it, \<open>save\<close> of a fetched document writes
    its position back.
  \<^item> The store, the file system and the timers are taken to answer: their calls
    do not throw, so the \<open>catch\<close> branches that only guard against such a throw
    have no counterpart. The failures the operations themselves decide on (a
    task function that throws, a rejected \<open>getMe()\<close>) are values of the model.
  \<^item> The eight hexadecimal digits of \<open>uuidv4().split('-')[0]\<close> are an argument
    \<open>uuid\<close>; \<open>Math.random()\<close> is an argument too.
\<close>

subsection \<open>Documents\<close>

type_synonym time = int

text \<open>
  Modelled from the spec: the Mongoose schema \<^verbatim>\<open>models/lock.js\<close> is not among the
  sources. A document of the \<open>Lock\<close> collection (a lease row) has the fields the
  lock manager writes and queries; as the spec says of the lease store, no
  uniqueness constraint on \<open>name\<close> and no atomic upsert is assumed.
\<close>

record lock_doc =
  name :: string
  lock_type :: string
  instance_id :: string
  created_at :: time
  last_heartbeat :: time

text \<open>
  The lock id \<^verbatim>\<open>`${taskName}_${Date.now()}_${uuidv4().split('-')[0]}`\<close>, kept as its
  three components.
\<close>

type_synonym lockid = "string \<times> time \<times> string"

text \<open>
  Modelled from the spec: the Mongoose schema \<^verbatim>\<open>models/taskLock.js\<close> is not among
  the sources. A document of the \<open>TaskLock\<close> collection has the fields the lock
  manager writes and queries; a record leaves the collection only through the
  deletions of the lock manager.
\<close>

record task_lock_doc =
  task_name :: string
  lock_id :: lockid
  tl_instance_id :: string
  tl_created_at :: time
  expires_at :: time

text \<open>The parsed content of the local lock file \<^verbatim>\<open>.bot_lock\<close>.\<close>

record lock_file_data =
  lf_instanceId :: string
  lf_createdAt :: time
  lf_pid :: nat

datatype lock_file = Damaged | LockData lock_file_data

text \<open>A rejected promise of the Telegram client: the error's \<open>code\<close> and \<open>message\<close>.\<close>

record js_error =
  code :: "string option"
  message :: "string option"

datatype getMe_outcome = Resolved | Rejected js_error

subsection \<open>Collection operations\<close>

fun findOne :: "('d \<Rightarrow> bool) \<Rightarrow> 'd list \<Rightarrow> (nat \<times> 'd) option" where
  "findOne q [] = None"
| "findOne q (d # ds) =
     (if q d then Some (0, d)
      else (case findOne q ds of None \<Rightarrow> None | Some (i, x) \<Rightarrow> Some (Suc i, x)))"

text \<open>\<open>deleteMany\<close> and \<open>deleteOne\<close> return \<open>deletedCount\<close> and the remaining documents.\<close>

definition deleteMany :: "('d \<Rightarrow> bool) \<Rightarrow> 'd list \<Rightarrow> nat \<times> 'd list" where
  "deleteMany q ds = (length (filter q ds), filter (\<lambda>d. \<not> q d) ds)"

fun deleteOne :: "('d \<Rightarrow> bool) \<Rightarrow> 'd list \<Rightarrow> nat \<times> 'd list" where
  "deleteOne q [] = (0, [])"
| "deleteOne q (d # ds) =
     (if q d then (1, ds) else (case deleteOne q ds of (n, r) \<Rightarrow> (n, d # r)))"

text \<open>\<open>deleteOne({ _id })\<close> of a document fetched at position \<open>i\<close>.\<close>

definition deleteOne_id :: "nat \<Rightarrow> 'd list \<Rightarrow> 'd list" where
  "deleteOne_id i ds = take i ds @ drop (Suc i) ds"

definition save_new :: "'d \<Rightarrow> 'd list \<Rightarrow> 'd list" where
  "save_new d ds = ds @ [d]"

definition save_at :: "nat \<Rightarrow> 'd \<Rightarrow> 'd list \<Rightarrow> 'd list" where
  "save_at i d ds = ds[i := d]"

subsection \<open>The state of one instance and of what it shares\<close>

text \<open>
  The fields of \<open>LockManager\<close> and of its \<open>LocalLockManager\<close>, then what the
  instance shares with the others: the two collections, the lock file of the
  deployment directory, and the number of \<open>getMe()\<close> calls sent to the channel.
  The record is extensible; task functions and the application manager keep
  their own fields in the extension.
\<close>

record state =
  instanceId :: string
  telegramConflictDetected :: bool
  lastTelegramConflictTime :: "time option"
  lockCheckCount :: nat
  lockCreateCount :: nat
  lockRemoveCount :: nat
  pid :: nat
  Lock :: "lock_doc list"
  TaskLock :: "task_lock_doc list"
  lockFile :: "lock_file option"
  getMe_calls :: nat

definition GLOBAL_LOCK_TIMEOUT :: int where
  "GLOBAL_LOCK_TIMEOUT = 180000"

definition TASK_LOCK_TIMEOUT :: int where
  "TASK_LOCK_TIMEOUT = 60000"

subsection \<open>Task locks\<close>

definition new_task_lock :: "string \<Rightarrow> lockid \<Rightarrow> string \<Rightarrow> time \<Rightarrow> int \<Rightarrow> task_lock_doc" where
  "new_task_lock taskName lockId me now timeoutMs =
     \<lparr>task_name = taskName, lock_id = lockId, tl_instance_id = me,
      tl_created_at = now, expires_at = now + timeoutMs\<rparr>"

definition acquireTaskLock ::
  "string \<Rightarrow> int \<Rightarrow> time \<Rightarrow> string \<Rightarrow> 'z state_scheme
     \<Rightarrow> (bool \<times> lockid option) \<times> 'z state_scheme" where
  "acquireTaskLock taskName timeoutMs now uuid s =
     (let lockId = (taskName, now, uuid);
          s1 = (if taskName = ''telegram_test''
                then s\<lparr>TaskLock := snd (deleteMany
                         (\<lambda>t. task_name t = ''telegram_test'' \<and> tl_created_at t < now - 60000)
                         (TaskLock s))\<rparr>
                else s);
          taskLock = new_task_lock taskName lockId (instanceId s1) now timeoutMs
      in case findOne (\<lambda>t. task_name t = taskName \<and> expires_at t > now) (TaskLock s1) of
           Some (i, existingLock) \<Rightarrow>
             if taskName = ''telegram_test'' \<and> now - tl_created_at existingLock > 60000
             then ((True, Some lockId),
                   s1\<lparr>TaskLock := save_new taskLock (deleteOne_id i (TaskLock s1))\<rparr>)
             else ((False, None), s1)
         | None \<Rightarrow>
             ((True, Some lockId), s1\<lparr>TaskLock := save_new taskLock (TaskLock s1)\<rparr>))"

definition releaseTaskLock :: "string \<Rightarrow> lockid \<Rightarrow> 'z state_scheme \<Rightarrow> bool \<times> 'z state_scheme" where
  "releaseTaskLock taskName lockId s =
     (case deleteOne (\<lambda>t. task_name t = taskName \<and> lock_id t = lockId) (TaskLock s) of
        (deletedCount, rest) \<Rightarrow> (deletedCount > 0, s\<lparr>TaskLock := rest\<rparr>))"

text \<open>
  \<open>executeWithLock\<close>: the task function is a state transformer that either returns
  (\<open>Inr\<close>) or throws (\<open>Inl\<close>). The result \<open>Inr None\<close> is \<open>null\<close>; \<open>Inl e\<close> is
  the re-thrown error. The \<open>finally\<close> block runs on both exits of the \<open>try\<close>.
\<close>

definition executeWithLock ::
  "string \<Rightarrow> ('z state_scheme \<Rightarrow> ('e + 'a) \<times> 'z state_scheme) \<Rightarrow> int \<Rightarrow> time \<Rightarrow> string
     \<Rightarrow> 'z state_scheme \<Rightarrow> ('e + 'a option) \<times> 'z state_scheme" where
  "executeWithLock taskName taskFunction timeoutMs now uuid s =
     (case acquireTaskLock taskName timeoutMs now uuid s of
        ((success, lockId), s1) \<Rightarrow>
          (case lockId of
             None \<Rightarrow> (Inr None, s1)
           | Some lid \<Rightarrow>
               if \<not> success then (Inr None, s1)
               else (case taskFunction s1 of
                       (Inr result, s2) \<Rightarrow>
                         (Inr (Some result), snd (releaseTaskLock taskName lid s2))
                     | (Inl error, s2) \<Rightarrow>
                         (Inl error, snd (releaseTaskLock taskName lid s2)))))"


definition cleanupTelegramTestLocks :: "time \<Rightarrow> 'z state_scheme \<Rightarrow> nat \<times> 'z state_scheme" where
  "cleanupTelegramTestLocks now s =
     (case deleteMany (\<lambda>t. task_name t = ''telegram_test'' \<and> expires_at t < now) (TaskLock s) of
        (expiredCount, r1) \<Rightarrow>
          (case deleteMany
                  (\<lambda>t. task_name t = ''telegram_test'' \<and> tl_created_at t < now - 120000) r1 of
             (oldCount, r2) \<Rightarrow> (expiredCount + oldCount, s\<lparr>TaskLock := r2\<rparr>)))"

definition cleanupExpiredTaskLocks :: "time \<Rightarrow> 'z state_scheme \<Rightarrow> nat \<times> 'z state_scheme" where
  "cleanupExpiredTaskLocks now s =
     (case deleteMany (\<lambda>t. expires_at t < now) (TaskLock s) of
        (deletedCount, r) \<Rightarrow>
          (case cleanupTelegramTestLocks now (s\<lparr>TaskLock := r\<rparr>) of
             (n, s') \<Rightarrow> (deletedCount + n, s')))"

subsection \<open>The local lock file\<close>

definition createLockFile :: "time \<Rightarrow> 'z state_scheme \<Rightarrow> bool \<times> 'z state_scheme" where
  "createLockFile now s =
     (True, s\<lparr>lockFile := Some (LockData
                 \<lparr>lf_instanceId = instanceId s, lf_createdAt = now, lf_pid = pid s\<rparr>),
              lockCreateCount := lockCreateCount s + 1\<rparr>)"

definition checkLockFile :: "'z state_scheme \<Rightarrow> bool \<times> 'z state_scheme" where
  "checkLockFile s =
     (let s1 = s\<lparr>lockCheckCount := lockCheckCount s + 1\<rparr>
      in case lockFile s1 of
           Some (LockData lockData) \<Rightarrow> (lf_instanceId lockData = instanceId s1, s1)
         | Some Damaged \<Rightarrow> (False, s1)
         | None \<Rightarrow> (False, s1))"

definition removeLockFile :: "'z state_scheme \<Rightarrow> bool \<times> 'z state_scheme" where
  "removeLockFile s =
     (case checkLockFile s of
        (owned, s1) \<Rightarrow>
          if owned
          then (True, s1\<lparr>lockFile := None, lockRemoveCount := lockRemoveCount s1 + 1\<rparr>)
          else (False, s1))"

subsection \<open>The probe of the Telegram channel\<close>

text \<open>
  \<open>error.code === 'ETELEGRAM' && error.message && error.message.includes('409 Conflict')\<close>
\<close>

definition is_409_conflict :: "js_error \<Rightarrow> bool" where
  "is_409_conflict error =
     (code error = Some ''ETELEGRAM'' \<and>
      (case message error of
         None \<Rightarrow> False
       | Some m \<Rightarrow> m \<noteq> [] \<and> sublist ''409 Conflict'' m))"

text \<open>Truthiness of \<open>this.lastTelegramConflictTime\<close>: neither \<open>null\<close> nor \<open>0\<close>.\<close>

definition truthy_time :: "time option \<Rightarrow> bool" where
  "truthy_time t = (case t of None \<Rightarrow> False | Some v \<Rightarrow> v \<noteq> 0)"

text \<open>
  \<open>chan\<close> is what \<open>getMe()\<close> answers if it is called; \<open>getMe_calls\<close> counts the
  calls that are made.
\<close>

definition testTelegramConnection ::
  "time \<Rightarrow> string \<Rightarrow> getMe_outcome \<Rightarrow> 'z state_scheme \<Rightarrow> bool \<times> 'z state_scheme" where
  "testTelegramConnection now uuid chan s =
     (if telegramConflictDetected s \<and> truthy_time (lastTelegramConflictTime s) \<and>
         now - the (lastTelegramConflictTime s) < 60000
      then (False, s)
      else
        (case acquireTaskLock ''telegram_test'' 20000 now uuid s of
           ((success, acquiredLockId), s1) \<Rightarrow>
             let release = (\<lambda>s'. case acquiredLockId of
                                   None \<Rightarrow> s'
                                 | Some lid \<Rightarrow> snd (releaseTaskLock ''telegram_test'' lid s'))
             in if \<not> success then (False, release s1)
                else
                  (let s2 = s1\<lparr>getMe_calls := getMe_calls s1 + 1\<rparr>
                   in case chan of
                        Resolved \<Rightarrow> (True, release (s2\<lparr>telegramConflictDetected := False\<rparr>))
                      | Rejected error \<Rightarrow>
                          if is_409_conflict error
                          then (False, release (s2\<lparr>telegramConflictDetected := True,
                                                   lastTelegramConflictTime := Some now\<rparr>))
                          else (False, release s2))))"

subsection \<open>Leases\<close>

definition new_lock :: "string \<Rightarrow> string \<Rightarrow> string \<Rightarrow> time \<Rightarrow> lock_doc" where
  "new_lock nm ty me now =
     \<lparr>name = nm, lock_type = ty, instance_id = me, created_at = now, last_heartbeat = now\<rparr>"

definition acquireMasterLock ::
  "time \<Rightarrow> string \<Rightarrow> getMe_outcome \<Rightarrow> 'z state_scheme \<Rightarrow> bool \<times> 'z state_scheme" where
  "acquireMasterLock now uuid chan s =
     (case testTelegramConnection now uuid chan s of
        (canConnectToTelegram, s1) \<Rightarrow>
          if \<not> canConnectToTelegram then (False, s1)
          else
            (let activeLock = findOne
                   (\<lambda>l. lock_type l = ''execution'' \<and>
                        last_heartbeat l > now - GLOBAL_LOCK_TIMEOUT) (Lock s1)
             in if (case activeLock of
                      None \<Rightarrow> False
                    | Some (i, l) \<Rightarrow> instance_id l \<noteq> instanceId s1)
                then (False, s1)
                else
                  (let s2 = s1\<lparr>Lock := snd (deleteMany
                                  (\<lambda>l. last_heartbeat l < now - GLOBAL_LOCK_TIMEOUT) (Lock s1))\<rparr>
                   in case findOne
                          (\<lambda>l. name l = ''master_lock'' \<and> lock_type l = ''master'' \<and>
                               last_heartbeat l > now - GLOBAL_LOCK_TIMEOUT) (Lock s2) of
                        Some (i, masterLock) \<Rightarrow>
                          if instance_id masterLock \<noteq> instanceId s2 then (False, s2)
                          else (True, s2\<lparr>Lock := save_at i (masterLock\<lparr>last_heartbeat := now\<rparr>)
                                                    (Lock s2)\<rparr>)
                      | None \<Rightarrow>
                          (let s3 = s2\<lparr>Lock := snd (deleteMany
                                  (\<lambda>l. name l = ''master_lock'' \<and> lock_type l = ''master'' \<and>
                                       last_heartbeat l < now - GLOBAL_LOCK_TIMEOUT) (Lock s2))\<rparr>
                           in (True, s3\<lparr>Lock := save_new
                                  (new_lock ''master_lock'' ''master'' (instanceId s3) now)
                                  (Lock s3)\<rparr>)))))"

definition acquireExecutionLock ::
  "time \<Rightarrow> string \<Rightarrow> getMe_outcome \<Rightarrow> 'z state_scheme \<Rightarrow> bool \<times> 'z state_scheme" where
  "acquireExecutionLock now uuid chan s =
     (case testTelegramConnection now uuid chan s of
        (canConnectToTelegram, s1) \<Rightarrow>
          if \<not> canConnectToTelegram then (False, s1)
          else
            (case findOne
                    (\<lambda>l. name l = ''execution_lock'' \<and> lock_type l = ''execution'' \<and>
                         last_heartbeat l > now - GLOBAL_LOCK_TIMEOUT) (Lock s1) of
               Some (i, executionLock) \<Rightarrow>
                 if instance_id executionLock \<noteq> instanceId s1 then (False, s1)
                 else (True, s1\<lparr>Lock := save_at i (executionLock\<lparr>last_heartbeat := now\<rparr>)
                                           (Lock s1)\<rparr>)
             | None \<Rightarrow>
                 (let s2 = s1\<lparr>Lock := snd (deleteMany
                         (\<lambda>l. name l = ''execution_lock'' \<and> lock_type l = ''execution'' \<and>
                              last_heartbeat l < now - GLOBAL_LOCK_TIMEOUT) (Lock s1))\<rparr>;
                      s3 = s2\<lparr>Lock := save_new
                         (new_lock ''execution_lock'' ''execution'' (instanceId s2) now)
                         (Lock s2)\<rparr>
                  in (True, snd (createLockFile now s3)))))"

text \<open>
  The closure both heartbeat operations hand to \<open>executeWithLock\<close>: it differs
  between them only in the \<open>name\<close> and the \<open>lock_type\<close> it looks for.
\<close>

definition heartbeatTask ::
  "string \<Rightarrow> string \<Rightarrow> time \<Rightarrow> 'z state_scheme \<Rightarrow> (js_error + bool) \<times> 'z state_scheme" where
  "heartbeatTask nm ty now s =
     (case findOne (\<lambda>l. name l = nm \<and> lock_type l = ty \<and> instance_id l = instanceId s)
             (Lock s) of
        Some (i, lock) \<Rightarrow>
          (Inr True, s\<lparr>Lock := save_at i (lock\<lparr>last_heartbeat := now\<rparr>) (Lock s)\<rparr>)
      | None \<Rightarrow> (Inr False, s))"

text \<open>
  The result is \<open>Some True\<close>, \<open>Some False\<close> or \<open>None\<close> for \<open>null\<close>, which is what
  \<open>executeWithLock\<close> returns when the task lock is not granted.
\<close>

definition updateExecutionLockHeartbeat ::
  "time \<Rightarrow> string \<Rightarrow> 'z state_scheme \<Rightarrow> bool option \<times> 'z state_scheme" where
  "updateExecutionLockHeartbeat now uuid s =
     (case executeWithLock ''execution_heartbeat''
             (heartbeatTask ''execution_lock'' ''execution'' now) 20000 now uuid s of
        (Inr r, s') \<Rightarrow> (r, s')
      | (Inl error, s') \<Rightarrow> (Some False, s'))"

definition updateMasterLockHeartbeat ::
  "time \<Rightarrow> string \<Rightarrow> 'z state_scheme \<Rightarrow> bool option \<times> 'z state_scheme" where
  "updateMasterLockHeartbeat now uuid s =
     (case executeWithLock ''master_heartbeat''
             (heartbeatTask ''master_lock'' ''master'' now) TASK_LOCK_TIMEOUT now uuid s of
        (Inr r, s') \<Rightarrow> (r, s')
      | (Inl error, s') \<Rightarrow> (Some False, s'))"

definition releaseAllLocks :: "'z state_scheme \<Rightarrow> bool \<times> 'z state_scheme" where
  "releaseAllLocks s =
     (let s1 = s\<lparr>TaskLock := snd (deleteMany (\<lambda>t. tl_instance_id t = instanceId s)
                                     (TaskLock s))\<rparr>;
          s2 = s1\<lparr>Lock := snd (deleteMany (\<lambda>l. instance_id l = instanceId s1) (Lock s1))\<rparr>
      in (True, snd (removeLockFile s2)))"


subsection \<open>The application manager\<close>

text \<open>
  The callbacks that \<open>AppManager\<close> hands to \<open>setTimeout\<close> and \<open>setInterval\<close>.
  \<open>RetryAcquireExecutionLock\<close> is
  \<^verbatim>\<open>() => { if (!this.isShuttingDown) this.acquireExecutionLock(); }\<close>.
\<close>

datatype timeout_callback = RetryAcquireExecutionLock | StartBot

datatype interval_callback = MasterHeartbeat | ExecutionHeartbeat | LockCheck

text \<open>
  The calls that \<open>AppManager\<close> makes on its collaborators are written to a log,
  in the order in which they are made.
\<close>

datatype call =
    LockManager_acquireExecutionLock time
  | NotificationSystem_stop
  | BotManager_stopBot
  | BotManager_emergencyReleaseTelegram
  | LockManager_releaseAllLocks
  | Connection_close

text \<open>
  Modelled from the spec: the schema \<^verbatim>\<open>models/startupNotification.js\<close> is not among
  the sources; a document has the three fields \<open>saveStartupNotification\<close> sets and
  its timestamp.
\<close>

record startup_notification =
  sn_instance_id :: string
  notification_type :: string
  sn_message :: string
  sn_timestamp :: time

text \<open>
  The fields of \<open>AppManager\<close>; the timers of the process (\<open>intervals\<close> holds the
  running ones by handle, \<open>timeouts\<close> the pending ones with their delay); the
  fields of \<open>BotManager\<close> (\<open>bot\<close> is \<open>this.bot !== null\<close>, \<open>polling\<close> is the
  bot's long poll, \<open>notifier_running\<close> the timers of the notification system the
  two \<open>notificationSystem\<close> fields point to); those of \<open>InstanceTracker\<close>; the
  \<open>readyState\<close> of the Mongoose connection and the \<open>StartupNotification\<close>
  collection; and the call log.
\<close>

record app = state +
  isShuttingDown :: bool
  lastConnectionAttemptTime :: time
  masterLockHeartbeatInterval :: "nat option"
  executionLockHeartbeatInterval :: "nat option"
  lockCheckInterval :: "nat option"
  keepAliveInterval :: "nat option"
  notificationSystem :: bool
  next_handle :: nat
  intervals :: "(nat \<times> interval_callback \<times> int) list"
  timeouts :: "(real \<times> timeout_callback) list"
  bot :: bool
  polling :: bool
  bm_notificationSystem :: bool
  notifier_running :: bool
  isBotStarting :: bool
  isPollingRestarting :: bool
  pollingRetryCount :: nat
  isTerminating :: bool
  terminationReason :: "string option"
  terminationTime :: "time option"
  readyState :: nat
  StartupNotification :: "startup_notification list"
  calls :: "call list"

definition CONNECTION_ATTEMPT_COOLDOWN :: int where
  "CONNECTION_ATTEMPT_COOLDOWN = 30000"

definition setTimeout :: "timeout_callback \<Rightarrow> real \<Rightarrow> 'z app_scheme \<Rightarrow> 'z app_scheme" where
  "setTimeout cb delay a = a\<lparr>timeouts := timeouts a @ [(delay, cb)]\<rparr>"

definition setInterval ::
  "interval_callback \<Rightarrow> int \<Rightarrow> 'z app_scheme \<Rightarrow> nat \<times> 'z app_scheme" where
  "setInterval cb period a =
     (next_handle a,
      a\<lparr>intervals := intervals a @ [(next_handle a, cb, period)],
        next_handle := next_handle a + 1\<rparr>)"

definition clearInterval :: "nat \<Rightarrow> 'z app_scheme \<Rightarrow> 'z app_scheme" where
  "clearInterval h a = a\<lparr>intervals := filter (\<lambda>(h', cb, period). h' \<noteq> h) (intervals a)\<rparr>"

definition startExecutionLockHeartbeat :: "'z app_scheme \<Rightarrow> 'z app_scheme" where
  "startExecutionLockHeartbeat a =
     (let a1 = (case executionLockHeartbeatInterval a of
                  Some h \<Rightarrow> clearInterval h a
                | None \<Rightarrow> a)
      in case setInterval ExecutionHeartbeat 10000 a1 of
           (h, a2) \<Rightarrow> a2\<lparr>executionLockHeartbeatInterval := Some h\<rparr>)"

definition startLockCheck :: "'z app_scheme \<Rightarrow> 'z app_scheme" where
  "startLockCheck a =
     (let a1 = (case lockCheckInterval a of
                  Some h \<Rightarrow> clearInterval h a
                | None \<Rightarrow> a)
      in case setInterval LockCheck 30000 a1 of
           (h, a2) \<Rightarrow> a2\<lparr>lockCheckInterval := Some h\<rparr>)"

text \<open>
  \<open>AppManager.acquireExecutionLock\<close>; \<open>rnd\<close> is the value of \<open>Math.random()\<close>.
\<close>

definition AppManager_acquireExecutionLock ::
  "time \<Rightarrow> real \<Rightarrow> string \<Rightarrow> getMe_outcome \<Rightarrow> 'z app_scheme \<Rightarrow> 'z app_scheme" where
  "AppManager_acquireExecutionLock now rnd uuid chan a =
     (if isShuttingDown a then a
      else
        (let timeSinceLastAttempt = now - lastConnectionAttemptTime a
         in if timeSinceLastAttempt < CONNECTION_ATTEMPT_COOLDOWN
            then (let waitTime = CONNECTION_ATTEMPT_COOLDOWN - timeSinceLastAttempt
                  in setTimeout RetryAcquireExecutionLock (real_of_int waitTime + rnd * 5000) a)
            else
              (let a1 = a\<lparr>lastConnectionAttemptTime := now\<rparr>;
                   a2 = a1\<lparr>calls := calls a1 @ [LockManager_acquireExecutionLock now]\<rparr>
               in case acquireExecutionLock now uuid chan a2 of
                    (success, a3) \<Rightarrow>
                      if success
                      then setTimeout StartBot 5000
                             (startLockCheck (startExecutionLockHeartbeat a3))
                      else setTimeout RetryAcquireExecutionLock 20000 a3)))"

text \<open>A run of invocations of \<open>AppManager.acquireExecutionLock\<close>, in order.\<close>

fun acquireExecutionLock_run ::
  "(time \<times> real \<times> string \<times> getMe_outcome) list \<Rightarrow> 'z app_scheme \<Rightarrow> 'z app_scheme" where
  "acquireExecutionLock_run [] a = a"
| "acquireExecutionLock_run ((now, rnd, uuid, chan) # rest) a =
     acquireExecutionLock_run rest (AppManager_acquireExecutionLock now rnd uuid chan a)"

text \<open>The times at which the log records a call of \<open>LockManager.acquireExecutionLock\<close>.\<close>

fun acquisition_times :: "call list \<Rightarrow> time list" where
  "acquisition_times [] = []"
| "acquisition_times (LockManager_acquireExecutionLock t # cs) = t # acquisition_times cs"
| "acquisition_times (c # cs) = acquisition_times cs"














subsection \<open>Concrete states\<close>

text \<open>An instance \<open>instance_A\<close> that holds nothing, on an empty store.\<close>

definition idle_state :: state where
  "idle_state =
     \<lparr>instanceId = ''instance_A'', telegramConflictDetected = False,
      lastTelegramConflictTime = None, lockCheckCount = 0, lockCreateCount = 0,
      lockRemoveCount = 0, pid = 4242, Lock = [], TaskLock = [], lockFile = None,
      getMe_calls = 0\<rparr>"

text \<open>A task lock of \<open>instance_B\<close>, taken at time 0 with the given name and time to live.\<close>

definition foreign_task_lock :: "string \<Rightarrow> int \<Rightarrow> task_lock_doc" where
  "foreign_task_lock taskName timeoutMs =
     new_task_lock taskName (taskName, 0, ''0badc0de'') ''instance_B'' 0 timeoutMs"

text \<open>A task function that asks the channel once and then throws.\<close>

definition failing_task :: "state \<Rightarrow> (string + unit) \<times> state" where
  "failing_task s = (Inl ''boom'', s\<lparr>getMe_calls := getMe_calls s + 1\<rparr>)"

text \<open>\<open>instance_A\<close> holds the execution lease, last renewed at time 0.\<close>

definition leased_state :: state where
  "leased_state =
     idle_state\<lparr>Lock := [new_lock ''execution_lock'' ''execution'' ''instance_A'' 0]\<rparr>"

text \<open>
  The same, while an unexpired \<open>execution_heartbeat\<close> task lock is in the store.
\<close>

definition contended_state :: state where
  "contended_state =
     leased_state\<lparr>TaskLock := [foreign_task_lock ''execution_heartbeat'' 20000]\<rparr>"

text \<open>
  At time 200000 the store holds one task lock that \<open>instance_B\<close> took at time 0
  with a time to live of ten minutes: for the job \<open>check_queue_timeouts\<close> in
  \<open>overdue_state\<close>, for \<open>telegram_test\<close> in \<open>orphan_probe_state\<close>.
\<close>

definition overdue_state :: state where
  "overdue_state = idle_state\<lparr>TaskLock := [foreign_task_lock ''check_queue_timeouts'' 600000]\<rparr>"

definition orphan_probe_state :: state where
  "orphan_probe_state = idle_state\<lparr>TaskLock := [foreign_task_lock ''telegram_test'' 600000]\<rparr>"

text \<open>\<open>instance_A\<close> recorded a channel conflict at time 100000.\<close>

definition conflict_state :: state where
  "conflict_state =
     idle_state\<lparr>telegramConflictDetected := True, lastTelegramConflictTime := Some 100000\<rparr>"

text \<open>Two rejections of \<open>getMe()\<close>: the conflict of a second consumer, and a network error.\<close>

definition conflict_409 :: js_error where
  "conflict_409 =
     \<lparr>code = Some ''ETELEGRAM'',
      message = Some ''ETELEGRAM: 409 Conflict: terminated by other getUpdates request''\<rparr>"

definition network_error :: js_error where
  "network_error = \<lparr>code = Some ''EFATAL'', message = Some ''EFATAL: Error: read ECONNRESET''\<rparr>"

text \<open>
  The lock file of the deployment directory records \<open>instance_B\<close>, while
  \<open>instance_A\<close> is the running instance.
\<close>

definition foreign_marker_state :: state where
  "foreign_marker_state =
     idle_state\<lparr>lockFile := Some (LockData
        \<lparr>lf_instanceId = ''instance_B'', lf_createdAt = 0, lf_pid = 17\<rparr>)\<rparr>"

text \<open>
  \<open>instance_A\<close> holds both leases, a task lock and the lock file; \<open>instance_B\<close>
  holds a task lock of its own.
\<close>

definition active_state :: state where
  "active_state =
     idle_state\<lparr>
       Lock := [new_lock ''master_lock'' ''master'' ''instance_A'' 0,
                new_lock ''execution_lock'' ''execution'' ''instance_A'' 0],
       TaskLock := [foreign_task_lock ''check_queue_timeouts'' 60000,
                    new_task_lock ''master_heartbeat'' (''master_heartbeat'', 0, ''ab12cd34'')
                      ''instance_A'' 0 60000],
       lockFile := Some (LockData
         \<lparr>lf_instanceId = ''instance_A'', lf_createdAt = 0, lf_pid = 4242\<rparr>)\<rparr>"

text \<open>\<open>instance_B\<close> holds the execution lease, last renewed at time 0.\<close>

definition gated_state :: state where
  "gated_state =
     idle_state\<lparr>Lock := [new_lock ''execution_lock'' ''execution'' ''instance_B'' 0]\<rparr>"

text \<open>
  Both \<open>instance_A\<close> and \<open>instance_B\<close> have an execution lease, renewed at time
  0; the row of \<open>instance_A\<close> is the older document.
\<close>

definition split_brain_state :: state where
  "split_brain_state =
     idle_state\<lparr>Lock := [new_lock ''execution_lock'' ''execution'' ''instance_A'' 0,
                         new_lock ''execution_lock'' ''execution'' ''instance_B'' 0]\<rparr>"

text \<open>
  The application manager of \<open>instance_A\<close> right after its construction, once
  the store connection is open: nothing is scheduled, no bot runs, and no
  attempt on the execution lease has been made.
\<close>

definition idle_app :: app where
  "idle_app =
     \<lparr>instanceId = ''instance_A'', telegramConflictDetected = False,
      lastTelegramConflictTime = None, lockCheckCount = 0, lockCreateCount = 0,
      lockRemoveCount = 0, pid = 4242, Lock = [], TaskLock = [], lockFile = None,
      getMe_calls = 0,
      isShuttingDown = False, lastConnectionAttemptTime = 0,
      masterLockHeartbeatInterval = None, executionLockHeartbeatInterval = None,
      lockCheckInterval = None, keepAliveInterval = None, notificationSystem = False,
      next_handle = 0, intervals = [], timeouts = [],
      bot = False, polling = False, bm_notificationSystem = False, notifier_running = False,
      isBotStarting = False, isPollingRestarting = False, pollingRetryCount = 0,
      isTerminating = False, terminationReason = None, terminationTime = None,
      readyState = 1, StartupNotification = [], calls = []\<rparr>"


section \<open>Properties\<close>

subsection \<open>Collection operations\<close>

lemma findOne_None_iff: "findOne q ds = None \<longleftrightarrow> (\<forall>d\<in>set ds. \<not> q d)"
  by (induction ds) (auto split: option.splits)

lemma findOne_SomeD:
  "findOne q ds = Some (i, d) \<Longrightarrow> i < length ds \<and> ds ! i = d \<and> q d \<and> (\<forall>j<i. \<not> q (ds ! j))"
proof (induction ds arbitrary: i)
  case Nil
  then show ?case by simp
next
  case (Cons x xs)
  show ?case
  proof (cases "q x")
    case True
    with Cons.prems show ?thesis by simp
  next
    case False
    with Cons.prems obtain k where k: "findOne q xs = Some (k, d)" "i = Suc k"
      by (auto split: option.splits)
    from Cons.IH [OF k(1)] have ih: "k < length xs" "xs ! k = d" "q d" "\<forall>j<k. \<not> q (xs ! j)"
      by simp_all
    show ?thesis using False ih k(2) by (auto simp: nth_Cons split: nat.splits)
  qed
qed

lemma deleteOne_count:
  "length (filter q (snd (deleteOne q ds))) = length (filter q ds) - 1"
  by (induction ds) (auto split: prod.splits)

lemma deleteOne_other:
  "filter (\<lambda>d. \<not> q d) (snd (deleteOne q ds)) = filter (\<lambda>d. \<not> q d) ds"
  by (induction ds) (auto split: prod.splits)

lemma deleteOne_append_fresh:
  "\<forall>d\<in>set ds. \<not> q d \<Longrightarrow> q x \<Longrightarrow> deleteOne q (ds @ [x]) = (1, ds)"
  by (induction ds) auto

subsection \<open>Task locks\<close>

lemma acquireTaskLock_cases:
  "acquireTaskLock taskName timeoutMs now uuid s = ((success, lockId), s1) \<Longrightarrow>
     (success \<and> lockId = Some (taskName, now, uuid)) \<or> (\<not> success \<and> lockId = None)"
  by (auto simp: acquireTaskLock_def Let_def split: option.splits if_splits)

lemma acquireTaskLock_row:
  "acquireTaskLock taskName timeoutMs now uuid s = ((True, lockId), s1) \<Longrightarrow>
     new_task_lock taskName (taskName, now, uuid) (instanceId s) now timeoutMs \<in> set (TaskLock s1)"
  by (auto simp: acquireTaskLock_def Let_def save_new_def split: option.splits if_splits)

lemma releaseTaskLock_effect:
  "snd (releaseTaskLock taskName lid s2) = s3 \<Longrightarrow>
     s3 = s2\<lparr>TaskLock := TaskLock s3\<rparr> \<and>
     length (filter (\<lambda>t. task_name t = taskName \<and> lock_id t = lid) (TaskLock s3)) =
       length (filter (\<lambda>t. task_name t = taskName \<and> lock_id t = lid) (TaskLock s2)) - 1 \<and>
     filter (\<lambda>t. \<not> (task_name t = taskName \<and> lock_id t = lid)) (TaskLock s3) =
       filter (\<lambda>t. \<not> (task_name t = taskName \<and> lock_id t = lid)) (TaskLock s2)"
  using deleteOne_count [of "\<lambda>t. task_name t = taskName \<and> lock_id t = lid" "TaskLock s2"]
        deleteOne_other [of "\<lambda>t. task_name t = taskName \<and> lock_id t = lid" "TaskLock s2"]
  by (auto simp: releaseTaskLock_def split: prod.splits)

lemma acquireTaskLock_plain:
  assumes "taskName \<noteq> ''telegram_test''"
  shows "acquireTaskLock taskName timeoutMs now uuid s =
     (if \<exists>t\<in>set (TaskLock s). task_name t = taskName \<and> expires_at t > now
      then ((False, None), s)
      else ((True, Some (taskName, now, uuid)),
            s\<lparr>TaskLock := TaskLock s @
                 [new_task_lock taskName (taskName, now, uuid) (instanceId s) now timeoutMs]\<rparr>))"
proof (cases "findOne (\<lambda>t. task_name t = taskName \<and> expires_at t > now) (TaskLock s)")
  case None
  then have "\<not> (\<exists>t\<in>set (TaskLock s). task_name t = taskName \<and> expires_at t > now)"
    by (simp add: findOne_None_iff)
  with None assms show ?thesis
    by (simp add: acquireTaskLock_def Let_def save_new_def)
next
  case (Some p)
  obtain i t where p: "p = (i, t)" by (cases p)
  from findOne_SomeD [OF Some [unfolded p]]
  have "\<exists>t\<in>set (TaskLock s). task_name t = taskName \<and> expires_at t > now"
    by (metis nth_mem)
  with Some p assms show ?thesis
    by (simp add: acquireTaskLock_def Let_def)
qed

lemma release_fresh:
  assumes "\<forall>t\<in>set T. lock_id t \<noteq> lid"
  shows "snd (deleteOne (\<lambda>t. task_name t = tn \<and> lock_id t = lid)
                (T @ [new_task_lock tn lid me now ttl])) = T"
proof -
  have "deleteOne (\<lambda>t. task_name t = tn \<and> lock_id t = lid)
          (T @ [new_task_lock tn lid me now ttl]) = (1, T)"
    using assms by (intro deleteOne_append_fresh) (auto simp: new_task_lock_def)
  then show ?thesis by simp
qed

lemma findOne_Some_mem:
  "findOne q ds = Some (i, d) \<Longrightarrow> d \<in> set ds \<and> q d"
  using findOne_SomeD [of q ds i d] by (metis nth_mem)

lemma acquireTaskLock_telegram_test:
  "acquireTaskLock ''telegram_test'' timeoutMs now uuid s =
     (let T = filter (\<lambda>t. \<not> (task_name t = ''telegram_test'' \<and> tl_created_at t < now - 60000))
                (TaskLock s)
      in if \<exists>t\<in>set T. task_name t = ''telegram_test'' \<and> expires_at t > now
         then ((False, None), s\<lparr>TaskLock := T\<rparr>)
         else ((True, Some (''telegram_test'', now, uuid)),
               s\<lparr>TaskLock := T @ [new_task_lock ''telegram_test'' (''telegram_test'', now, uuid)
                                     (instanceId s) now timeoutMs]\<rparr>))"
proof -
  let ?T = "filter (\<lambda>t. \<not> (task_name t = ''telegram_test'' \<and> tl_created_at t < now - 60000))
              (TaskLock s)"
  let ?q = "\<lambda>t. task_name t = ''telegram_test'' \<and> expires_at t > now"
  show ?thesis
  proof (cases "findOne ?q ?T")
    case None
    then have "\<not> (\<exists>t\<in>set ?T. ?q t)" by (simp only: findOne_None_iff) blast
    with None show ?thesis
      by (simp add: acquireTaskLock_def Let_def save_new_def deleteMany_def)
  next
    case (Some p)
    obtain i t where p: "p = (i, t)" by (cases p)
    from findOne_Some_mem [OF Some [unfolded p]] have t: "t \<in> set ?T" "?q t" by simp_all
    then have young: "\<not> now - tl_created_at t > 60000" by auto
    from t have "\<exists>t\<in>set ?T. ?q t" by blast
    with Some p young show ?thesis
      by (simp add: acquireTaskLock_def Let_def deleteMany_def)
  qed
qed

lemma cleanupExpiredTaskLocks_rows:
  "TaskLock (snd (cleanupExpiredTaskLocks now s)) =
     filter (\<lambda>t. \<not> expires_at t < now \<and>
                 \<not> (task_name t = ''telegram_test'' \<and> tl_created_at t < now - 120000))
       (TaskLock s)"
  by (simp add: cleanupExpiredTaskLocks_def cleanupTelegramTestLocks_def deleteMany_def
      split: prod.splits) (rule filter_cong, auto)

subsection \<open>Heartbeats\<close>

lemma heartbeat_generic:
  assumes tn: "tn \<noteq> ''telegram_test''"
  shows "executeWithLock tn (heartbeatTask nm ty now) ttl now uuid s =
     (if \<exists>t\<in>set (TaskLock s). task_name t = tn \<and> expires_at t > now
      then (Inr None, s)
      else
        (let T = snd (deleteOne (\<lambda>t. task_name t = tn \<and> lock_id t = (tn, now, uuid))
                   (TaskLock s @ [new_task_lock tn (tn, now, uuid) (instanceId s) now ttl]))
         in case findOne (\<lambda>l. name l = nm \<and> lock_type l = ty \<and> instance_id l = instanceId s)
                  (Lock s) of
              None \<Rightarrow> (Inr (Some False), s\<lparr>TaskLock := T\<rparr>)
            | Some (i, l) \<Rightarrow>
                (Inr (Some True),
                 s\<lparr>Lock := (Lock s)[i := l\<lparr>last_heartbeat := now\<rparr>], TaskLock := T\<rparr>)))"
  by (simp add: executeWithLock_def acquireTaskLock_plain [OF tn] heartbeatTask_def
      releaseTaskLock_def save_at_def Let_def split: option.splits prod.splits)

lemma heartbeat_never_throws:
  "tn \<noteq> ''telegram_test'' \<Longrightarrow>
     \<exists>r s'. executeWithLock tn (heartbeatTask nm ty now) ttl now uuid s = (Inr r, s')"
  by (simp add: heartbeat_generic Let_def split: option.splits prod.splits)

lemma heartbeat_post:
  assumes tn: "tn \<noteq> ''telegram_test''"
      and ex: "executeWithLock tn (heartbeatTask nm ty now) ttl now uuid s = (Inr r, s')"
  shows "if \<exists>t\<in>set (TaskLock s). task_name t = tn \<and> expires_at t > now
         then r = None \<and> s' = s
         else (r = Some False \<longleftrightarrow>
                 \<not> (\<exists>l\<in>set (Lock s). name l = nm \<and> lock_type l = ty \<and>
                       instance_id l = instanceId s)) \<and>
              (r = Some True \<longleftrightarrow>
                 (\<exists>l\<in>set (Lock s). name l = nm \<and> lock_type l = ty \<and>
                       instance_id l = instanceId s)) \<and>
              (case findOne (\<lambda>l. name l = nm \<and> lock_type l = ty \<and>
                                 instance_id l = instanceId s) (Lock s) of
                 None \<Rightarrow> Lock s' = Lock s
               | Some (i, l) \<Rightarrow> Lock s' = (Lock s)[i := l\<lparr>last_heartbeat := now\<rparr>]) \<and>
              ((\<forall>t\<in>set (TaskLock s). lock_id t \<noteq> (tn, now, uuid)) \<longrightarrow>
                 TaskLock s' = TaskLock s) \<and>
              s' = s\<lparr>Lock := Lock s', TaskLock := TaskLock s'\<rparr>"
proof (cases "\<exists>t\<in>set (TaskLock s). task_name t = tn \<and> expires_at t > now")
  case True
  with ex show ?thesis by (simp add: heartbeat_generic [OF tn])
next
  case free: False
  let ?own = "\<lambda>l. name l = nm \<and> lock_type l = ty \<and> instance_id l = instanceId s"
  show ?thesis
  proof (cases "findOne ?own (Lock s)")
    case None
    then have no: "\<not> (\<exists>l\<in>set (Lock s). ?own l)" by (simp add: findOne_None_iff)
    from ex free None have "r = Some False" "Lock s' = Lock s"
      "s' = s\<lparr>Lock := Lock s', TaskLock := TaskLock s'\<rparr>"
      "TaskLock s' = snd (deleteOne (\<lambda>t. task_name t = tn \<and> lock_id t = (tn, now, uuid))
                   (TaskLock s @ [new_task_lock tn (tn, now, uuid) (instanceId s) now ttl]))"
      by (auto simp: heartbeat_generic [OF tn] Let_def)
    with free None no show ?thesis by (simp add: release_fresh)
  next
    case (Some p)
    obtain i l where p: "p = (i, l)" by (cases p)
    from findOne_SomeD [OF Some [unfolded p]] have yes: "\<exists>l\<in>set (Lock s). ?own l"
      by (metis nth_mem)
    from ex free Some p have "r = Some True" "Lock s' = (Lock s)[i := l\<lparr>last_heartbeat := now\<rparr>]"
      "s' = s\<lparr>Lock := Lock s', TaskLock := TaskLock s'\<rparr>"
      "TaskLock s' = snd (deleteOne (\<lambda>t. task_name t = tn \<and> lock_id t = (tn, now, uuid))
                   (TaskLock s @ [new_task_lock tn (tn, now, uuid) (instanceId s) now ttl]))"
      by (auto simp: heartbeat_generic [OF tn] Let_def)
    with free Some p yes show ?thesis by (simp add: release_fresh)
  qed
qed

text \<open>
  Claim C1, as stated, fails. \<open>instance_A\<close> owns the execution lease, but an
  unexpired \<open>execution_heartbeat\<close> task lock is in the store:
  \<open>updateExecutionLockHeartbeat\<close> returns \<open>null\<close>, neither \<open>true\<close> nor \<open>false\<close>,
  and the lease keeps its old \<open>last_heartbeat\<close>.
\<close>

theorem heartbeat_null_counterexample:
  "Lock contended_state = [new_lock ''execution_lock'' ''execution'' (instanceId contended_state) 0] \<and>
   updateExecutionLockHeartbeat 1000 ''ab12cd34'' contended_state = (None, contended_state)"
  by (simp add: updateExecutionLockHeartbeat_def heartbeat_generic contended_state_def
      leased_state_def idle_state_def foreign_task_lock_def new_task_lock_def)

text \<open>
  Claim C1, amended. A heartbeat operation (\<open>updateExecutionLockHeartbeat\<close> or
  \<open>updateMasterLockHeartbeat\<close>) first takes the task lock \<open>execution_heartbeat\<close>
  or \<open>master_heartbeat\<close>. While an unexpired task lock of that name is in the
  store it returns \<open>null\<close> and changes nothing. Otherwise it returns \<open>false\<close>
  if and only if the store has no lease row of that name owned by this holder,
  and else sets the \<open>last_heartbeat\<close> of the first such row to the current time
  and returns \<open>true\<close>; it changes no other lease row, and it gives the task lock
  back (the task locks are as before when the new lock id was not in use).
\<close>

theorem heartbeat_contract:
  "(case updateExecutionLockHeartbeat now uuid s of
      (r, s') \<Rightarrow>
         (if \<exists>t\<in>set (TaskLock s). task_name t = ''execution_heartbeat'' \<and> expires_at t > now
          then r = None \<and> s' = s
          else (r = Some False \<longleftrightarrow>
                  \<not> (\<exists>l\<in>set (Lock s). name l = ''execution_lock'' \<and> lock_type l = ''execution'' \<and>
                        instance_id l = instanceId s)) \<and>
               (r = Some True \<longleftrightarrow>
                  (\<exists>l\<in>set (Lock s). name l = ''execution_lock'' \<and> lock_type l = ''execution'' \<and>
                        instance_id l = instanceId s)) \<and>
               (case findOne (\<lambda>l. name l = ''execution_lock'' \<and> lock_type l = ''execution'' \<and>
                                  instance_id l = instanceId s) (Lock s) of
                  None \<Rightarrow> Lock s' = Lock s
                | Some (i, l) \<Rightarrow> Lock s' = (Lock s)[i := l\<lparr>last_heartbeat := now\<rparr>]) \<and>
               ((\<forall>t\<in>set (TaskLock s). lock_id t \<noteq> (''execution_heartbeat'', now, uuid)) \<longrightarrow>
                  TaskLock s' = TaskLock s) \<and>
               s' = s\<lparr>Lock := Lock s', TaskLock := TaskLock s'\<rparr>)) \<and>
   (case updateMasterLockHeartbeat now uuid s of
      (r, s') \<Rightarrow>
         (if \<exists>t\<in>set (TaskLock s). task_name t = ''master_heartbeat'' \<and> expires_at t > now
          then r = None \<and> s' = s
          else (r = Some False \<longleftrightarrow>
                  \<not> (\<exists>l\<in>set (Lock s). name l = ''master_lock'' \<and> lock_type l = ''master'' \<and>
                        instance_id l = instanceId s)) \<and>
               (r = Some True \<longleftrightarrow>
                  (\<exists>l\<in>set (Lock s). name l = ''master_lock'' \<and> lock_type l = ''master'' \<and>
                        instance_id l = instanceId s)) \<and>
               (case findOne (\<lambda>l. name l = ''master_lock'' \<and> lock_type l = ''master'' \<and>
                                  instance_id l = instanceId s) (Lock s) of
                  None \<Rightarrow> Lock s' = Lock s
                | Some (i, l) \<Rightarrow> Lock s' = (Lock s)[i := l\<lparr>last_heartbeat := now\<rparr>]) \<and>
               ((\<forall>t\<in>set (TaskLock s). lock_id t \<noteq> (''master_heartbeat'', now, uuid)) \<longrightarrow>
                  TaskLock s' = TaskLock s) \<and>
               s' = s\<lparr>Lock := Lock s', TaskLock := TaskLock s'\<rparr>))"
proof -
  obtain r1 s1 where e1: "executeWithLock ''execution_heartbeat''
      (heartbeatTask ''execution_lock'' ''execution'' now) 20000 now uuid s = (Inr r1, s1)"
    using heartbeat_never_throws [of "''execution_heartbeat''"] by fastforce
  obtain r2 s2 where e2: "executeWithLock ''master_heartbeat''
      (heartbeatTask ''master_lock'' ''master'' now) TASK_LOCK_TIMEOUT now uuid s = (Inr r2, s2)"
    using heartbeat_never_throws [of "''master_heartbeat''"] by fastforce
  have u1: "updateExecutionLockHeartbeat now uuid s = (r1, s1)"
    by (simp add: updateExecutionLockHeartbeat_def e1)
  have u2: "updateMasterLockHeartbeat now uuid s = (r2, s2)"
    by (simp add: updateMasterLockHeartbeat_def e2)
  have p1: "''execution_heartbeat'' \<noteq> ''telegram_test''" by simp
  have p2: "''master_heartbeat'' \<noteq> ''telegram_test''" by simp
  from heartbeat_post [OF p1 e1] heartbeat_post [OF p2 e2] show ?thesis
    unfolding u1 u2 prod.case by (rule conjI)
qed

text \<open>
  With no heartbeat task lock in the way, the lease of \<open>instance_A\<close> is renewed
  at time 1000 and the result is \<open>true\<close>.
\<close>

theorem heartbeat_contract_witness:
  "updateExecutionLockHeartbeat 1000 ''ab12cd34'' leased_state =
     (Some True,
      leased_state\<lparr>Lock := [(new_lock ''execution_lock'' ''execution'' ''instance_A'' 0)
                               \<lparr>last_heartbeat := 1000\<rparr>]\<rparr>)"
proof -
  have "updateExecutionLockHeartbeat 1000 ''ab12cd34'' leased_state =
     (Some True,
      leased_state\<lparr>Lock := [(new_lock ''execution_lock'' ''execution'' ''instance_A'' 0)
                               \<lparr>last_heartbeat := 1000\<rparr>]\<rparr>)"
    by (simp add: updateExecutionLockHeartbeat_def heartbeat_generic leased_state_def
        idle_state_def new_lock_def new_task_lock_def Let_def)
  with heartbeat_contract [where now = 1000 and uuid = "''ab12cd34''" and s = leased_state] show ?thesis by simp
qed

subsection \<open>Task locks past the hard ceiling\<close>

text \<open>
  Claim C2, as stated, fails. At time 200000 the task lock of
  \<open>check_queue_timeouts\<close> is older than two minutes and has not expired:
  \<open>acquireTaskLock\<close> for that name is refused and \<open>cleanupExpiredTaskLocks\<close>
  removes nothing, so the record stays.
\<close>

theorem stale_task_lock_counterexample:
  "TaskLock overdue_state = [foreign_task_lock ''check_queue_timeouts'' 600000] \<and>
   200000 - tl_created_at (foreign_task_lock ''check_queue_timeouts'' 600000) > 120000 \<and>
   acquireTaskLock ''check_queue_timeouts'' 60000 200000 ''ab12cd34'' overdue_state =
     ((False, None), overdue_state) \<and>
   cleanupExpiredTaskLocks 200000 overdue_state = (0, overdue_state)"
  by (simp add: overdue_state_def idle_state_def foreign_task_lock_def new_task_lock_def
      acquireTaskLock_def cleanupExpiredTaskLocks_def cleanupTelegramTestLocks_def
      deleteMany_def Let_def)

text \<open>
  Claim C2, amended. A task lock record of the task name \<open>telegram_test\<close> that
  is older than the hard ceiling of two minutes is deleted by the next
  \<open>cleanupExpiredTaskLocks\<close> and by the next \<open>acquireTaskLock\<close> for
  \<open>telegram_test\<close>, also when its \<open>expires_at\<close> has not passed; that acquisition
  is granted, with a fresh lock in the store, provided no unexpired
  \<open>telegram_test\<close> record created within the last minute is there (and, all
  within one instant, only then). A record of
  any other task name is not reclaimed by age: while it is unexpired,
  \<open>acquireTaskLock\<close> for its name is refused and leaves the store as it is, and
  \<open>cleanupExpiredTaskLocks\<close> keeps it.
\<close>

theorem stale_task_lock_contract:
  assumes t: "t \<in> set (TaskLock s)"
  shows "(task_name t = ''telegram_test'' \<and> now - tl_created_at t > 120000 \<longrightarrow>
            t \<notin> set (TaskLock (snd (cleanupExpiredTaskLocks now s))) \<and>
            t \<notin> set (TaskLock (snd (acquireTaskLock ''telegram_test'' timeoutMs now uuid s))) \<and>
            (fst (fst (acquireTaskLock ''telegram_test'' timeoutMs now uuid s)) \<longleftrightarrow>
               \<not> (\<exists>t'\<in>set (TaskLock s). task_name t' = ''telegram_test'' \<and>
                      expires_at t' > now \<and> now - tl_created_at t' \<le> 60000)) \<and>
            (fst (fst (acquireTaskLock ''telegram_test'' timeoutMs now uuid s)) \<longrightarrow>
               new_task_lock ''telegram_test'' (''telegram_test'', now, uuid) (instanceId s)
                   now timeoutMs
                 \<in> set (TaskLock (snd (acquireTaskLock ''telegram_test'' timeoutMs now uuid s))))) \<and>
         (task_name t \<noteq> ''telegram_test'' \<and> expires_at t > now \<longrightarrow>
            acquireTaskLock (task_name t) timeoutMs now uuid s = ((False, None), s)) \<and>
         (task_name t \<noteq> ''telegram_test'' \<and> expires_at t \<ge> now \<longrightarrow>
            t \<in> set (TaskLock (snd (cleanupExpiredTaskLocks now s))))"
proof (intro conjI impI)
  assume old: "task_name t = ''telegram_test'' \<and> now - tl_created_at t > 120000"
  then show "t \<notin> set (TaskLock (snd (cleanupExpiredTaskLocks now s)))"
    by (simp add: cleanupExpiredTaskLocks_rows)
  from old show "t \<notin> set (TaskLock (snd (acquireTaskLock ''telegram_test'' timeoutMs now uuid s)))"
    by (auto simp: acquireTaskLock_telegram_test Let_def new_task_lock_def)
  show "fst (fst (acquireTaskLock ''telegram_test'' timeoutMs now uuid s)) \<longleftrightarrow>
          \<not> (\<exists>t'\<in>set (TaskLock s). task_name t' = ''telegram_test'' \<and>
                 expires_at t' > now \<and> now - tl_created_at t' \<le> 60000)"
    by (auto simp: acquireTaskLock_telegram_test Let_def)
next
  assume "fst (fst (acquireTaskLock ''telegram_test'' timeoutMs now uuid s))"
  then show "new_task_lock ''telegram_test'' (''telegram_test'', now, uuid) (instanceId s)
                 now timeoutMs
               \<in> set (TaskLock (snd (acquireTaskLock ''telegram_test'' timeoutMs now uuid s)))"
    by (auto simp: acquireTaskLock_telegram_test Let_def split: if_splits)
next
  assume "task_name t \<noteq> ''telegram_test'' \<and> expires_at t > now"
  with t show "acquireTaskLock (task_name t) timeoutMs now uuid s = ((False, None), s)"
    by (auto simp: acquireTaskLock_plain)
next
  assume "task_name t \<noteq> ''telegram_test'' \<and> expires_at t \<ge> now"
  with t show "t \<in> set (TaskLock (snd (cleanupExpiredTaskLocks now s)))"
    by (simp add: cleanupExpiredTaskLocks_rows)
qed

text \<open>
  At time 200000 the \<open>telegram_test\<close> lock of \<open>instance_B\<close> is swept although it
  has not expired, and an acquisition by \<open>instance_A\<close> replaces it.
\<close>

theorem stale_task_lock_contract_witness:
  "cleanupExpiredTaskLocks 200000 orphan_probe_state = (1, idle_state) \<and>
   acquireTaskLock ''telegram_test'' 20000 200000 ''ab12cd34'' orphan_probe_state =
     ((True, Some (''telegram_test'', 200000, ''ab12cd34'')),
      idle_state\<lparr>TaskLock := [new_task_lock ''telegram_test''
         (''telegram_test'', 200000, ''ab12cd34'') ''instance_A'' 200000 20000]\<rparr>)"
proof -
  have mem: "foreign_task_lock ''telegram_test'' 600000 \<in> set (TaskLock orphan_probe_state)"
    by (simp add: orphan_probe_state_def)
  have "cleanupExpiredTaskLocks 200000 orphan_probe_state = (1, idle_state) \<and>
        acquireTaskLock ''telegram_test'' 20000 200000 ''ab12cd34'' orphan_probe_state =
          ((True, Some (''telegram_test'', 200000, ''ab12cd34'')),
           idle_state\<lparr>TaskLock := [new_task_lock ''telegram_test''
              (''telegram_test'', 200000, ''ab12cd34'') ''instance_A'' 200000 20000]\<rparr>)"
    by (simp add: orphan_probe_state_def idle_state_def foreign_task_lock_def new_task_lock_def
        acquireTaskLock_def cleanupExpiredTaskLocks_def cleanupTelegramTestLocks_def
        deleteMany_def save_new_def Let_def)
  with stale_task_lock_contract [OF mem, where now = 200000 and timeoutMs = 20000
      and uuid = "''ab12cd34''"]
  show ?thesis by simp
qed

subsection \<open>Running a task under its lock\<close>

text \<open>
  Claim C3. For every task name, task function and time to live,
  \<open>executeWithLock\<close> first tries to take the task lock. When the lock is not
  granted it returns \<open>null\<close> and its final state is the one the failed
  acquisition left, so the task function has not run. When the lock is granted,
  a lock row with the new lock id is in the store, the task function runs once,
  on the state the acquisition left; \<open>releaseTaskLock\<close> for the acquired lock id
  then runs on the state the task function left, whether it returned or threw,
  and takes one row with that task name and lock id out of the collection,
  touching nothing else; the result is the task function's result, or its error
  thrown again.
\<close>

theorem executeWithLock_contract:
  fixes taskFunction :: "'z state_scheme \<Rightarrow> ('e + 'a) \<times> 'z state_scheme"
  assumes acq: "acquireTaskLock taskName timeoutMs now uuid s = ((success, lockId), s1)"
      and run: "taskFunction s1 = (r, s2)"
  shows "(\<not> success \<longrightarrow>
            executeWithLock taskName taskFunction timeoutMs now uuid s = (Inr None, s1)) \<and>
         (success \<longrightarrow>
            lockId = Some (taskName, now, uuid) \<and>
            new_task_lock taskName (taskName, now, uuid) (instanceId s) now timeoutMs
              \<in> set (TaskLock s1) \<and>
            (\<exists>s3. executeWithLock taskName taskFunction timeoutMs now uuid s =
                    ((case r of Inl error \<Rightarrow> Inl error | Inr result \<Rightarrow> Inr (Some result)), s3) \<and>
                  s3 = snd (releaseTaskLock taskName (taskName, now, uuid) s2) \<and>
                  s3 = s2\<lparr>TaskLock := TaskLock s3\<rparr> \<and>
                  length (filter (\<lambda>t. task_name t = taskName \<and> lock_id t = (taskName, now, uuid))
                            (TaskLock s3)) =
                    length (filter (\<lambda>t. task_name t = taskName \<and> lock_id t = (taskName, now, uuid))
                              (TaskLock s2)) - 1 \<and>
                  filter (\<lambda>t. \<not> (task_name t = taskName \<and> lock_id t = (taskName, now, uuid)))
                    (TaskLock s3) =
                    filter (\<lambda>t. \<not> (task_name t = taskName \<and> lock_id t = (taskName, now, uuid)))
                      (TaskLock s2)))"
proof (cases success)
  case False
  with acquireTaskLock_cases [OF acq] have "lockId = None" by simp
  with False acq show ?thesis by (simp add: executeWithLock_def)
next
  case True
  with acquireTaskLock_cases [OF acq] have lid: "lockId = Some (taskName, now, uuid)" by simp
  from True acq have row:
    "new_task_lock taskName (taskName, now, uuid) (instanceId s) now timeoutMs \<in> set (TaskLock s1)"
    by (simp add: acquireTaskLock_row)
  have ex: "executeWithLock taskName taskFunction timeoutMs now uuid s =
              ((case r of Inl error \<Rightarrow> Inl error | Inr result \<Rightarrow> Inr (Some result)),
               snd (releaseTaskLock taskName (taskName, now, uuid) s2))"
    using True lid acq run by (simp add: executeWithLock_def split: sum.splits)
  from releaseTaskLock_effect [OF refl, of taskName "(taskName, now, uuid)" s2] True lid row ex
  show ?thesis by blast
qed

text \<open>
  On the empty store the lock for \<open>job\<close> is granted: the failing task runs once
  (one channel call is counted), its error comes back, and the lock row is gone.
  While \<open>instance_B\<close> holds an unexpired lock for \<open>job\<close> the result is \<open>null\<close>
  and no channel call is counted.
\<close>

theorem executeWithLock_contract_witness:
  "executeWithLock ''job'' failing_task 60000 1000 ''ab12cd34'' idle_state =
     (Inl ''boom'', idle_state\<lparr>getMe_calls := 1\<rparr>) \<and>
   executeWithLock ''job'' failing_task 60000 1000 ''ab12cd34''
       (idle_state\<lparr>TaskLock := [foreign_task_lock ''job'' 60000]\<rparr>) =
     (Inr None, idle_state\<lparr>TaskLock := [foreign_task_lock ''job'' 60000]\<rparr>)"
proof -
  let ?row = "new_task_lock ''job'' (''job'', 1000, ''ab12cd34'') ''instance_A'' 1000 60000"
  let ?held = "idle_state\<lparr>TaskLock := [foreign_task_lock ''job'' 60000]\<rparr>"
  have acq1: "acquireTaskLock ''job'' 60000 1000 ''ab12cd34'' idle_state =
                ((True, Some (''job'', 1000, ''ab12cd34'')), idle_state\<lparr>TaskLock := [?row]\<rparr>)"
    by (simp add: acquireTaskLock_def idle_state_def save_new_def Let_def)
  have run1: "failing_task (idle_state\<lparr>TaskLock := [?row]\<rparr>) =
                (Inl ''boom'', idle_state\<lparr>TaskLock := [?row], getMe_calls := 1\<rparr>)"
    by (simp add: failing_task_def idle_state_def)
  have acq2: "acquireTaskLock ''job'' 60000 1000 ''ab12cd34'' ?held = ((False, None), ?held)"
    by (simp add: acquireTaskLock_def idle_state_def foreign_task_lock_def new_task_lock_def Let_def)
  have run2: "failing_task ?held = (Inl ''boom'', ?held\<lparr>getMe_calls := 1\<rparr>)"
    by (simp add: failing_task_def idle_state_def)
  from executeWithLock_contract [where taskFunction = failing_task, OF acq1 run1]
       executeWithLock_contract [where taskFunction = failing_task, OF acq2 run2]
  show ?thesis
    by (simp add: releaseTaskLock_def new_task_lock_def idle_state_def)
qed

subsection \<open>The probe of the channel\<close>

lemma conflict_409_is_conflict: "is_409_conflict conflict_409"
  unfolding is_409_conflict_def conflict_409_def by code_simp

lemma network_error_no_conflict: "\<not> is_409_conflict network_error"
  unfolding is_409_conflict_def network_error_def by code_simp

lemma probe_keeps_leases:
  "Lock (snd (testTelegramConnection now uuid chan s)) = Lock s \<and>
   instanceId (snd (testTelegramConnection now uuid chan s)) = instanceId s \<and>
   lockFile (snd (testTelegramConnection now uuid chan s)) = lockFile s"
  by (auto simp: testTelegramConnection_def acquireTaskLock_telegram_test releaseTaskLock_def
      Let_def split: prod.splits getMe_outcome.splits)

lemma probe_backoff:
  assumes "telegramConflictDetected s" "lastTelegramConflictTime s = Some t" "t \<noteq> 0"
    "now - t < 60000"
  shows "testTelegramConnection now uuid chan s = (False, s)"
  using assms by (simp add: testTelegramConnection_def truthy_time_def)

lemma probe_rejected:
  "fst (testTelegramConnection now uuid (Rejected error) s) = False"
  by (auto simp: testTelegramConnection_def Let_def split: prod.splits)

lemma probe_conflict_recorded:
  assumes "getMe_calls (snd (testTelegramConnection now uuid (Rejected error) s)) =
             getMe_calls s + 1"
      and "is_409_conflict error"
  shows "telegramConflictDetected (snd (testTelegramConnection now uuid (Rejected error) s)) \<and>
         lastTelegramConflictTime (snd (testTelegramConnection now uuid (Rejected error) s)) =
           Some now"
  using assms
  by (auto simp: testTelegramConnection_def acquireTaskLock_telegram_test releaseTaskLock_def
      Let_def split: prod.splits if_splits)

lemma probe_other_error_flags:
  assumes "\<not> is_409_conflict error"
  shows "telegramConflictDetected (snd (testTelegramConnection now uuid (Rejected error) s)) =
           telegramConflictDetected s \<and>
         lastTelegramConflictTime (snd (testTelegramConnection now uuid (Rejected error) s)) =
           lastTelegramConflictTime s"
  using assms
  by (auto simp: testTelegramConnection_def acquireTaskLock_telegram_test releaseTaskLock_def
      Let_def split: prod.splits if_splits)

text \<open>
  Claim C5. When the conflict flag is set and the recorded conflict time \<open>t\<close>
  (a time other than 0, which JavaScript reads as unset) is less than 60000 ms
  before \<open>now\<close>, \<open>testTelegramConnection\<close> returns \<open>false\<close> and leaves the whole
  state as it is: no task lock is taken and no \<open>getMe()\<close> call is counted. Every
  rejection of \<open>getMe()\<close> makes the probe return \<open>false\<close>; a rejection other than
  the 409 conflict records no conflict. And when a probe at time \<open>now\<close> called
  \<open>getMe()\<close> and got the 409 conflict, a second probe less than 60000 ms later
  returns \<open>false\<close> without a call.
\<close>

theorem probe_backoff_contract:
  "(telegramConflictDetected s \<and> lastTelegramConflictTime s = Some t \<and> t \<noteq> 0 \<and>
      now - t < 60000 \<longrightarrow>
      testTelegramConnection now uuid chan s = (False, s)) \<and>
   fst (testTelegramConnection now uuid (Rejected error) s) = False \<and>
   (\<not> is_409_conflict error \<longrightarrow>
      telegramConflictDetected (snd (testTelegramConnection now uuid (Rejected error) s)) =
        telegramConflictDetected s \<and>
      lastTelegramConflictTime (snd (testTelegramConnection now uuid (Rejected error) s)) =
        lastTelegramConflictTime s) \<and>
   (is_409_conflict error \<and> s' = snd (testTelegramConnection now uuid (Rejected error) s) \<and>
      getMe_calls s' = getMe_calls s + 1 \<and> now \<noteq> 0 \<and> now' - now < 60000 \<longrightarrow>
      testTelegramConnection now' uuid' chan' s' = (False, s'))"
proof (intro conjI impI)
  assume "telegramConflictDetected s \<and> lastTelegramConflictTime s = Some t \<and> t \<noteq> 0 \<and>
      now - t < 60000"
  then show "testTelegramConnection now uuid chan s = (False, s)"
    by (simp add: probe_backoff)
next
  show "fst (testTelegramConnection now uuid (Rejected error) s) = False"
    by (rule probe_rejected)
next
  assume "\<not> is_409_conflict error"
  then show "telegramConflictDetected (snd (testTelegramConnection now uuid (Rejected error) s)) =
        telegramConflictDetected s"
    and "lastTelegramConflictTime (snd (testTelegramConnection now uuid (Rejected error) s)) =
        lastTelegramConflictTime s"
    by (simp_all add: probe_other_error_flags)
next
  assume a: "is_409_conflict error \<and> s' = snd (testTelegramConnection now uuid (Rejected error) s) \<and>
      getMe_calls s' = getMe_calls s + 1 \<and> now \<noteq> 0 \<and> now' - now < 60000"
  then have c: "getMe_calls (snd (testTelegramConnection now uuid (Rejected error) s)) =
      getMe_calls s + 1" and e: "is_409_conflict error"
    by blast+
  from probe_conflict_recorded [OF c e] a
  have "telegramConflictDetected s'" "lastTelegramConflictTime s' = Some now"
    by blast+
  moreover from a have "now \<noteq> 0" "now' - now < 60000" by blast+
  ultimately show "testTelegramConnection now' uuid' chan' s' = (False, s')"
    by (rule probe_backoff)
qed

text \<open>
  Thirty seconds after the recorded conflict the probe is cut short. On the
  idle instance a probe at time 100000 that meets the 409 conflict makes one
  call and records the conflict; a second probe 59999 ms later makes none, even
  though the channel would now answer. A network error makes one call and
  returns \<open>false\<close>.
\<close>

theorem probe_backoff_contract_witness:
  "testTelegramConnection 130000 ''ab12cd34'' Resolved conflict_state = (False, conflict_state) \<and>
   testTelegramConnection 100000 ''ab12cd34'' (Rejected conflict_409) idle_state =
     (False, conflict_state\<lparr>getMe_calls := 1\<rparr>) \<and>
   testTelegramConnection 159999 ''cd34ab12'' Resolved (conflict_state\<lparr>getMe_calls := 1\<rparr>) =
     (False, conflict_state\<lparr>getMe_calls := 1\<rparr>) \<and>
   testTelegramConnection 100000 ''ab12cd34'' (Rejected network_error) idle_state =
     (False, idle_state\<lparr>getMe_calls := 1\<rparr>)"
proof -
  have first: "testTelegramConnection 100000 ''ab12cd34'' (Rejected conflict_409) idle_state =
      (False, conflict_state\<lparr>getMe_calls := 1\<rparr>)"
    using conflict_409_is_conflict
    by (simp add: testTelegramConnection_def acquireTaskLock_telegram_test releaseTaskLock_def
        new_task_lock_def conflict_state_def idle_state_def Let_def truthy_time_def)
  have other: "testTelegramConnection 100000 ''ab12cd34'' (Rejected network_error) idle_state =
      (False, idle_state\<lparr>getMe_calls := 1\<rparr>)"
    using network_error_no_conflict
    by (simp add: testTelegramConnection_def acquireTaskLock_telegram_test releaseTaskLock_def
        new_task_lock_def idle_state_def Let_def truthy_time_def)
  have flag: "telegramConflictDetected conflict_state"
    "lastTelegramConflictTime conflict_state = Some 100000"
    by (simp_all add: conflict_state_def)
  from probe_backoff_contract [where s = conflict_state and t = 100000 and now = 130000
      and uuid = "''ab12cd34''" and chan = Resolved] flag
  have cut: "testTelegramConnection 130000 ''ab12cd34'' Resolved conflict_state =
      (False, conflict_state)"
    by simp
  from probe_backoff_contract [where s = idle_state and now = 100000 and uuid = "''ab12cd34''"
      and error = conflict_409 and s' = "conflict_state\<lparr>getMe_calls := 1\<rparr>"
      and now' = 159999 and uuid' = "''cd34ab12''" and chan' = Resolved]
    conflict_409_is_conflict first
  have second: "testTelegramConnection 159999 ''cd34ab12'' Resolved
      (conflict_state\<lparr>getMe_calls := 1\<rparr>) = (False, conflict_state\<lparr>getMe_calls := 1\<rparr>)"
    by (simp add: idle_state_def)
  from cut first second other show ?thesis by simp
qed

subsection \<open>Releasing everything\<close>

lemma releaseAllLocks_effect:
  "releaseAllLocks s =
     (True,
      s\<lparr>TaskLock := filter (\<lambda>t. tl_instance_id t \<noteq> instanceId s) (TaskLock s),
        Lock := filter (\<lambda>l. instance_id l \<noteq> instanceId s) (Lock s),
        lockCheckCount := lockCheckCount s + 1,
        lockFile := (case lockFile s of
                       Some (LockData d) \<Rightarrow>
                         if lf_instanceId d = instanceId s then None else lockFile s
                     | _ \<Rightarrow> lockFile s),
        lockRemoveCount := (case lockFile s of
                       Some (LockData d) \<Rightarrow>
                         if lf_instanceId d = instanceId s then lockRemoveCount s + 1
                         else lockRemoveCount s
                     | _ \<Rightarrow> lockRemoveCount s)\<rparr>)"
  by (simp add: releaseAllLocks_def removeLockFile_def checkLockFile_def deleteMany_def Let_def
      split: option.splits lock_file.splits)

text \<open>
  Claim C6, as stated, fails. The lock file records \<open>instance_B\<close>;
  \<open>releaseAllLocks\<close> of \<open>instance_A\<close> returns \<open>true\<close> and the file is still
  there.
\<close>

theorem releaseAllLocks_marker_counterexample:
  "fst (releaseAllLocks foreign_marker_state) = True \<and>
   lockFile (snd (releaseAllLocks foreign_marker_state)) =
     Some (LockData \<lparr>lf_instanceId = ''instance_B'', lf_createdAt = 0, lf_pid = 17\<rparr>)"
  by (simp add: releaseAllLocks_effect foreign_marker_state_def idle_state_def)

text \<open>
  Claim C6, amended. \<open>releaseAllLocks\<close> returns \<open>true\<close>; it deletes every lease
  row and every task lock row owned by this holder and no other row; it removes
  the local lock file if the file records this holder, and leaves a file that
  records another holder, or an unreadable one, in place. It is idempotent: a
  second call in a row returns \<open>true\<close> again and leaves the two collections and
  the lock file as the first call left them, with no row of this holder.
\<close>

theorem releaseAllLocks_contract:
  assumes first: "releaseAllLocks s = (r, s')"
      and second: "releaseAllLocks s' = (r', s'')"
  shows "r = True \<and>
         Lock s' = filter (\<lambda>l. instance_id l \<noteq> instanceId s) (Lock s) \<and>
         TaskLock s' = filter (\<lambda>t. tl_instance_id t \<noteq> instanceId s) (TaskLock s) \<and>
         (\<forall>l\<in>set (Lock s'). instance_id l \<noteq> instanceId s) \<and>
         (\<forall>t\<in>set (TaskLock s'). tl_instance_id t \<noteq> instanceId s) \<and>
         lockFile s' = (case lockFile s of
                          Some (LockData d) \<Rightarrow>
                            if lf_instanceId d = instanceId s then None else lockFile s
                        | _ \<Rightarrow> lockFile s) \<and>
         r' = True \<and> Lock s'' = Lock s' \<and> TaskLock s'' = TaskLock s' \<and>
         lockFile s'' = lockFile s' \<and>
         (\<forall>l\<in>set (Lock s''). instance_id l \<noteq> instanceId s) \<and>
         (\<forall>t\<in>set (TaskLock s''). tl_instance_id t \<noteq> instanceId s)"
proof -
  have ok: "fst (releaseAllLocks x) = True" for x :: "'a state_scheme"
    by (simp add: releaseAllLocks_effect)
  from first ok [of s] have s': "r = True" "s' = snd (releaseAllLocks s)"
    by simp_all
  from second ok [of s'] have s'': "r' = True" "s'' = snd (releaseAllLocks s')"
    by simp_all
  have 1: "Lock s' = filter (\<lambda>l. instance_id l \<noteq> instanceId s) (Lock s)"
    "TaskLock s' = filter (\<lambda>t. tl_instance_id t \<noteq> instanceId s) (TaskLock s)"
    "instanceId s' = instanceId s"
    "lockFile s' = (case lockFile s of
                          Some (LockData d) \<Rightarrow>
                            if lf_instanceId d = instanceId s then None else lockFile s
                        | _ \<Rightarrow> lockFile s)"
    unfolding s' by (simp_all add: releaseAllLocks_effect)
  have 2: "Lock s'' = filter (\<lambda>l. instance_id l \<noteq> instanceId s') (Lock s')"
    "TaskLock s'' = filter (\<lambda>t. tl_instance_id t \<noteq> instanceId s') (TaskLock s')"
    "lockFile s'' = (case lockFile s' of
                          Some (LockData d) \<Rightarrow>
                            if lf_instanceId d = instanceId s' then None else lockFile s'
                        | _ \<Rightarrow> lockFile s')"
    unfolding s'' by (simp_all add: releaseAllLocks_effect)
  have 3: "Lock s'' = Lock s'" "TaskLock s'' = TaskLock s'"
    unfolding 2 1 by simp_all
  have 4: "lockFile s'' = lockFile s'"
    unfolding 2 1 by (simp split: option.splits lock_file.splits)
  show ?thesis
    unfolding 3 4 using s'(1) s''(1) 1 by simp
qed

text \<open>
  Where \<open>instance_A\<close> holds both leases, a task lock and the lock file, only the
  task lock of \<open>instance_B\<close> is left after the call and the lock file is gone;
  a second call changes nothing but the count of lock file checks.
\<close>

theorem releaseAllLocks_contract_witness:
  "releaseAllLocks active_state =
     (True, idle_state\<lparr>TaskLock := [foreign_task_lock ''check_queue_timeouts'' 60000],
                       lockCheckCount := 1, lockRemoveCount := 1\<rparr>) \<and>
   releaseAllLocks (idle_state\<lparr>TaskLock := [foreign_task_lock ''check_queue_timeouts'' 60000],
                       lockCheckCount := 1, lockRemoveCount := 1\<rparr>) =
     (True, idle_state\<lparr>TaskLock := [foreign_task_lock ''check_queue_timeouts'' 60000],
                       lockCheckCount := 2, lockRemoveCount := 1\<rparr>) \<and>
   Lock (idle_state\<lparr>TaskLock := [foreign_task_lock ''check_queue_timeouts'' 60000],
                       lockCheckCount := 2, lockRemoveCount := 1\<rparr>) =
     filter (\<lambda>l. instance_id l \<noteq> instanceId active_state) (Lock active_state)"
proof -
  let ?s1 = "idle_state\<lparr>TaskLock := [foreign_task_lock ''check_queue_timeouts'' 60000],
                       lockCheckCount := 1, lockRemoveCount := 1\<rparr>"
  let ?s2 = "idle_state\<lparr>TaskLock := [foreign_task_lock ''check_queue_timeouts'' 60000],
                       lockCheckCount := 2, lockRemoveCount := 1\<rparr>"
  have first: "releaseAllLocks active_state = (True, ?s1)"
    by (simp add: releaseAllLocks_effect active_state_def idle_state_def foreign_task_lock_def
        new_task_lock_def new_lock_def)
  have second: "releaseAllLocks ?s1 = (True, ?s2)"
    by (simp add: releaseAllLocks_effect idle_state_def foreign_task_lock_def
        new_task_lock_def)
  from releaseAllLocks_contract [OF first second]
  have "Lock ?s2 = Lock ?s1"
    and "Lock ?s1 = filter (\<lambda>l. instance_id l \<noteq> instanceId active_state) (Lock active_state)"
    by blast+
  with first second show ?thesis by simp
qed

subsection \<open>Acquiring the leases\<close>

lemma probe_result:
  assumes "testTelegramConnection now uuid chan s = (ok, s1)"
  shows "Lock s1 = Lock s" "instanceId s1 = instanceId s" "lockFile s1 = lockFile s"
  using probe_keeps_leases [of now uuid chan s] assms by simp_all

lemma acquireMasterLock_probe_failed:
  assumes "testTelegramConnection now uuid chan s = (False, s1)"
  shows "acquireMasterLock now uuid chan s = (False, s1)"
  using assms by (simp add: acquireMasterLock_def)

lemma acquireMasterLock_gate_closed:
  assumes probe: "testTelegramConnection now uuid chan s = (True, s1)"
      and found: "findOne (\<lambda>l. lock_type l = ''execution'' \<and>
                      last_heartbeat l > now - GLOBAL_LOCK_TIMEOUT) (Lock s) = Some (i, l)"
      and other: "instance_id l \<noteq> instanceId s"
  shows "acquireMasterLock now uuid chan s = (False, s1)"
  using probe found other probe_result [OF probe]
  by (simp add: acquireMasterLock_def Let_def)

lemma acquireMasterLock_gate_open:
  assumes probe: "testTelegramConnection now uuid chan s = (True, s1)"
      and gate: "\<not> (case findOne (\<lambda>l. lock_type l = ''execution'' \<and>
                      last_heartbeat l > now - GLOBAL_LOCK_TIMEOUT) (Lock s) of
                    None \<Rightarrow> False
                  | Some (i, l) \<Rightarrow> instance_id l \<noteq> instanceId s)"
  shows "acquireMasterLock now uuid chan s =
     (let ls = filter (\<lambda>l. \<not> last_heartbeat l < now - GLOBAL_LOCK_TIMEOUT) (Lock s)
      in case findOne (\<lambda>l. name l = ''master_lock'' \<and> lock_type l = ''master'' \<and>
                          last_heartbeat l > now - GLOBAL_LOCK_TIMEOUT) ls of
           Some (i, m) \<Rightarrow>
             if instance_id m \<noteq> instanceId s then (False, s1\<lparr>Lock := ls\<rparr>)
             else (True, s1\<lparr>Lock := ls[i := m\<lparr>last_heartbeat := now\<rparr>]\<rparr>)
         | None \<Rightarrow>
             (True, s1\<lparr>Lock := ls @ [new_lock ''master_lock'' ''master'' (instanceId s) now]\<rparr>))"
proof (cases "findOne (\<lambda>l. lock_type l = ''execution'' \<and>
                      last_heartbeat l > now - GLOBAL_LOCK_TIMEOUT) (Lock s)")
  case None
  with probe probe_result [OF probe] show ?thesis
    by (simp add: acquireMasterLock_def Let_def deleteMany_def save_at_def save_new_def
        split: option.splits cong: conj_cong)
next
  case (Some p)
  obtain i l where p: "p = (i, l)" by (cases p)
  from gate Some p have "instance_id l = instanceId s" by simp
  with Some p probe probe_result [OF probe] show ?thesis
    by (simp add: acquireMasterLock_def Let_def deleteMany_def save_at_def save_new_def
        split: option.splits cong: conj_cong)
qed


lemma probe_idle:
  "testTelegramConnection now uuid Resolved (idle_state\<lparr>Lock := ls\<rparr>) =
     (True, idle_state\<lparr>Lock := ls, getMe_calls := 1\<rparr>)"
  by (simp add: testTelegramConnection_def acquireTaskLock_telegram_test releaseTaskLock_def
      new_task_lock_def idle_state_def Let_def truthy_time_def)

subsection \<open>The master lease\<close>

text \<open>
  Claim C4, as stated, fails. The probe finds the channel free and no master
  lease exists, but \<open>instance_B\<close> holds a live execution lease:
  \<open>acquireMasterLock\<close> of \<open>instance_A\<close> returns \<open>false\<close> and inserts nothing.
\<close>

theorem acquireMasterLock_counterexample:
  "testTelegramConnection 1000 ''ab12cd34'' Resolved gated_state =
     (True, gated_state\<lparr>getMe_calls := 1\<rparr>) \<and>
   Lock gated_state = [new_lock ''execution_lock'' ''execution'' ''instance_B'' 0] \<and>
   acquireMasterLock 1000 ''ab12cd34'' Resolved gated_state =
     (False, gated_state\<lparr>getMe_calls := 1\<rparr>)"
proof -
  have probe: "testTelegramConnection 1000 ''ab12cd34'' Resolved gated_state =
     (True, gated_state\<lparr>getMe_calls := 1\<rparr>)"
    unfolding gated_state_def by (simp add: probe_idle)
  have "acquireMasterLock 1000 ''ab12cd34'' Resolved gated_state =
     (False, gated_state\<lparr>getMe_calls := 1\<rparr>)"
    by (rule acquireMasterLock_gate_closed [OF probe, where i = 0
          and l = "new_lock ''execution_lock'' ''execution'' ''instance_B'' 0"])
       (simp_all add: gated_state_def idle_state_def new_lock_def GLOBAL_LOCK_TIMEOUT_def)
  with probe show ?thesis by (simp add: gated_state_def)
qed

text \<open>
  Claim C4, amended. \<open>acquireMasterLock\<close> first runs the probe. When the probe
  fails it returns \<open>false\<close> at once and the lease rows are as before. Otherwise,
  when the first live execution lease in the store (a row of type \<open>execution\<close>
  renewed less than 180000 ms ago) belongs to a different holder, it returns
  \<open>false\<close> and the lease rows are as before. Otherwise it deletes every lease
  row last renewed more than 180000 ms ago, and then: when the first live master
  lease belongs to a different holder it returns \<open>false\<close>; when it belongs to
  this holder it sets that row's \<open>last_heartbeat\<close> to the current time and
  returns \<open>true\<close>; and when there is no live master lease it inserts a new one
  for this holder and returns \<open>true\<close>.
\<close>

theorem acquireMasterLock_contract:
  assumes probe: "testTelegramConnection now uuid chan s = (ok, s1)"
      and res: "acquireMasterLock now uuid chan s = (r, s')"
  shows "(\<not> ok \<longrightarrow> r = False \<and> s' = s1 \<and> Lock s' = Lock s) \<and>
         (ok \<and> (case findOne (\<lambda>l. lock_type l = ''execution'' \<and>
                      last_heartbeat l > now - GLOBAL_LOCK_TIMEOUT) (Lock s) of
                   None \<Rightarrow> False
                 | Some (i, l) \<Rightarrow> instance_id l \<noteq> instanceId s) \<longrightarrow>
            r = False \<and> s' = s1 \<and> Lock s' = Lock s) \<and>
         (ok \<and> \<not> (case findOne (\<lambda>l. lock_type l = ''execution'' \<and>
                      last_heartbeat l > now - GLOBAL_LOCK_TIMEOUT) (Lock s) of
                   None \<Rightarrow> False
                 | Some (i, l) \<Rightarrow> instance_id l \<noteq> instanceId s) \<longrightarrow>
            s' = s1\<lparr>Lock := Lock s'\<rparr> \<and>
            (case findOne (\<lambda>l. name l = ''master_lock'' \<and> lock_type l = ''master'' \<and>
                              last_heartbeat l > now - GLOBAL_LOCK_TIMEOUT)
                    (filter (\<lambda>l. \<not> now - last_heartbeat l > 180000) (Lock s)) of
               Some (i, m) \<Rightarrow>
                 if instance_id m \<noteq> instanceId s
                 then r = False \<and>
                      Lock s' = filter (\<lambda>l. \<not> now - last_heartbeat l > 180000) (Lock s)
                 else r = True \<and>
                      Lock s' = (filter (\<lambda>l. \<not> now - last_heartbeat l > 180000) (Lock s))
                                  [i := m\<lparr>last_heartbeat := now\<rparr>]
             | None \<Rightarrow>
                 r = True \<and>
                 Lock s' = filter (\<lambda>l. \<not> now - last_heartbeat l > 180000) (Lock s) @
                             [new_lock ''master_lock'' ''master'' (instanceId s) now]))"
proof -
  have stale: "(\<lambda>l. \<not> now - last_heartbeat l > 180000) =
               (\<lambda>l. \<not> last_heartbeat l < now - GLOBAL_LOCK_TIMEOUT)"
    by (auto simp: GLOBAL_LOCK_TIMEOUT_def)
  show ?thesis
  proof (cases ok)
    case False
    with probe res acquireMasterLock_probe_failed [of now uuid chan s s1]
      probe_result(1) [OF probe]
    show ?thesis by simp
  next
    case True
    note ok = True
    from probe ok have probe': "testTelegramConnection now uuid chan s = (True, s1)"
      by simp
    show ?thesis
    proof (cases "case findOne (\<lambda>l. lock_type l = ''execution'' \<and>
                      last_heartbeat l > now - GLOBAL_LOCK_TIMEOUT) (Lock s) of
                   None \<Rightarrow> False
                 | Some (i, l) \<Rightarrow> instance_id l \<noteq> instanceId s")
      case True
      then obtain i l where "findOne (\<lambda>l. lock_type l = ''execution'' \<and>
                      last_heartbeat l > now - GLOBAL_LOCK_TIMEOUT) (Lock s) = Some (i, l)"
        "instance_id l \<noteq> instanceId s"
        by (auto split: option.splits)
      from acquireMasterLock_gate_closed [OF probe' this] res
        probe_result(1) [OF probe] True ok
      show ?thesis by simp
    next
      case False
      from acquireMasterLock_gate_open [OF probe' False] res
      show ?thesis
        unfolding stale using ok False
        by (auto simp: Let_def split: option.splits if_splits)
    qed
  qed
qed

text \<open>
  On the empty store the probe passes and \<open>instance_A\<close> gets a new master
  lease.
\<close>

theorem acquireMasterLock_contract_witness:
  "testTelegramConnection 1000 ''ab12cd34'' Resolved idle_state =
     (True, idle_state\<lparr>getMe_calls := 1\<rparr>) \<and>
   fst (acquireMasterLock 1000 ''ab12cd34'' Resolved idle_state) = True \<and>
   Lock (snd (acquireMasterLock 1000 ''ab12cd34'' Resolved idle_state)) =
     [new_lock ''master_lock'' ''master'' ''instance_A'' 1000]"
proof -
  have probe: "testTelegramConnection 1000 ''ab12cd34'' Resolved idle_state =
     (True, idle_state\<lparr>getMe_calls := 1\<rparr>)"
    using probe_idle [of 1000 "''ab12cd34''" "[]"] by (simp add: idle_state_def)
  obtain r s' where res: "acquireMasterLock 1000 ''ab12cd34'' Resolved idle_state = (r, s')"
    by (cases "acquireMasterLock 1000 ''ab12cd34'' Resolved idle_state")
  have gate: "\<not> (case findOne (\<lambda>l. lock_type l = ''execution'' \<and>
                      last_heartbeat l > 1000 - GLOBAL_LOCK_TIMEOUT) (Lock idle_state) of
                   None \<Rightarrow> False
                 | Some (i, l) \<Rightarrow> instance_id l \<noteq> instanceId idle_state)"
    by (simp add: idle_state_def)
  from acquireMasterLock_contract [OF probe res] gate
  have "case findOne (\<lambda>l. name l = ''master_lock'' \<and> lock_type l = ''master'' \<and>
                              last_heartbeat l > 1000 - GLOBAL_LOCK_TIMEOUT)
                    (filter (\<lambda>l. \<not> 1000 - last_heartbeat l > 180000) (Lock idle_state)) of
               Some (i, m) \<Rightarrow>
                 if instance_id m \<noteq> instanceId idle_state
                 then r = False \<and>
                      Lock s' = filter (\<lambda>l. \<not> 1000 - last_heartbeat l > 180000)
                                  (Lock idle_state)
                 else r = True \<and>
                      Lock s' = (filter (\<lambda>l. \<not> 1000 - last_heartbeat l > 180000)
                                   (Lock idle_state))
                                  [i := m\<lparr>last_heartbeat := 1000\<rparr>]
             | None \<Rightarrow>
                 r = True \<and>
                 Lock s' = filter (\<lambda>l. \<not> 1000 - last_heartbeat l > 180000) (Lock idle_state) @
                             [new_lock ''master_lock'' ''master'' (instanceId idle_state) 1000]"
    by blast
  then have "r = True \<and> Lock s' = [new_lock ''master_lock'' ''master'' ''instance_A'' 1000]"
    by (simp add: idle_state_def)
  with probe show ?thesis unfolding res by simp
qed

subsection \<open>The gate on execution leases\<close>

text \<open>
  Claim C7, as stated, fails. Both instances have a live execution lease and
  the row of \<open>instance_A\<close> comes first: \<open>acquireMasterLock\<close> of \<open>instance_A\<close>
  finds its own row, goes on, creates the master lease and returns \<open>true\<close>,
  although \<open>instance_B\<close> holds a live execution lease.
\<close>

theorem execution_gate_counterexample:
  "Lock split_brain_state =
     [new_lock ''execution_lock'' ''execution'' ''instance_A'' 0,
      new_lock ''execution_lock'' ''execution'' ''instance_B'' 0] \<and>
   1000 - last_heartbeat (new_lock ''execution_lock'' ''execution'' ''instance_B'' 0) < 180000 \<and>
   acquireMasterLock 1000 ''ab12cd34'' Resolved split_brain_state =
     (True, split_brain_state
        \<lparr>getMe_calls := 1,
         Lock := [new_lock ''execution_lock'' ''execution'' ''instance_A'' 0,
                  new_lock ''execution_lock'' ''execution'' ''instance_B'' 0,
                  new_lock ''master_lock'' ''master'' ''instance_A'' 1000]\<rparr>)"
proof -
  have probe: "testTelegramConnection 1000 ''ab12cd34'' Resolved split_brain_state =
     (True, split_brain_state\<lparr>getMe_calls := 1\<rparr>)"
    unfolding split_brain_state_def by (simp add: probe_idle)
  have gate: "\<not> (case findOne (\<lambda>l. lock_type l = ''execution'' \<and>
                      last_heartbeat l > 1000 - GLOBAL_LOCK_TIMEOUT) (Lock split_brain_state) of
                   None \<Rightarrow> False
                 | Some (i, l) \<Rightarrow> instance_id l \<noteq> instanceId split_brain_state)"
    by (simp add: split_brain_state_def idle_state_def new_lock_def GLOBAL_LOCK_TIMEOUT_def)
  show ?thesis
    unfolding acquireMasterLock_gate_open [OF probe gate]
    by (simp add: split_brain_state_def idle_state_def new_lock_def GLOBAL_LOCK_TIMEOUT_def)
qed

text \<open>
  Claim C7, amended. \<open>acquireMasterLock\<close> returns \<open>false\<close> and leaves the lease
  rows as they are, so that no master lease is created or refreshed, whenever
  the first live execution lease in the store (a row of type \<open>execution\<close> whose
  \<open>last_heartbeat\<close> is less than 180000 ms old) belongs to a different holder;
  in particular whenever a different holder has a live execution lease and this
  holder has none.
\<close>

theorem execution_gate_contract:
  "(findOne (\<lambda>l. lock_type l = ''execution'' \<and>
                last_heartbeat l > now - GLOBAL_LOCK_TIMEOUT) (Lock s) = Some (i, l) \<and>
      instance_id l \<noteq> instanceId s \<longrightarrow>
      fst (acquireMasterLock now uuid chan s) = False \<and>
      Lock (snd (acquireMasterLock now uuid chan s)) = Lock s) \<and>
   ((\<exists>l\<in>set (Lock s). lock_type l = ''execution'' \<and> now - last_heartbeat l < 180000 \<and>
        instance_id l \<noteq> instanceId s) \<and>
    \<not> (\<exists>l\<in>set (Lock s). lock_type l = ''execution'' \<and> now - last_heartbeat l < 180000 \<and>
        instance_id l = instanceId s) \<longrightarrow>
      fst (acquireMasterLock now uuid chan s) = False \<and>
      Lock (snd (acquireMasterLock now uuid chan s)) = Lock s)"
proof -
  let ?live = "\<lambda>l. lock_type l = ''execution'' \<and> last_heartbeat l > now - GLOBAL_LOCK_TIMEOUT"
  obtain ok s1 where probe: "testTelegramConnection now uuid chan s = (ok, s1)"
    by (cases "testTelegramConnection now uuid chan s")
  have closed: "fst (acquireMasterLock now uuid chan s) = False \<and>
                Lock (snd (acquireMasterLock now uuid chan s)) = Lock s"
    if found: "findOne ?live (Lock s) = Some (j, e)" and other: "instance_id e \<noteq> instanceId s"
    for j e
  proof (cases ok)
    case False
    with probe acquireMasterLock_probe_failed [of now uuid chan s s1] probe_result(1) [OF probe]
    show ?thesis by simp
  next
    case True
    with probe have "testTelegramConnection now uuid chan s = (True, s1)" by simp
    from acquireMasterLock_gate_closed [OF this found other] probe_result(1) [OF probe]
    show ?thesis by simp
  qed
  have part2: "fst (acquireMasterLock now uuid chan s) = False \<and>
               Lock (snd (acquireMasterLock now uuid chan s)) = Lock s"
    if some: "\<exists>l\<in>set (Lock s). lock_type l = ''execution'' \<and> now - last_heartbeat l < 180000 \<and>
                instance_id l \<noteq> instanceId s"
      and none: "\<not> (\<exists>l\<in>set (Lock s). lock_type l = ''execution'' \<and>
                now - last_heartbeat l < 180000 \<and> instance_id l = instanceId s)"
  proof -
    from some have "\<exists>l\<in>set (Lock s). ?live l"
      by (auto simp: GLOBAL_LOCK_TIMEOUT_def)
    then have "findOne ?live (Lock s) \<noteq> None" by (simp add: findOne_None_iff)
    then obtain j e where found: "findOne ?live (Lock s) = Some (j, e)" by auto
    from findOne_Some_mem [OF found] none have "instance_id e \<noteq> instanceId s"
      by (auto simp: GLOBAL_LOCK_TIMEOUT_def)
    with found show ?thesis by (rule closed)
  qed
  from closed part2 show ?thesis by blast
qed

text \<open>
  While \<open>instance_B\<close> alone holds a live execution lease, \<open>instance_A\<close> is
  refused the master lease and the lease rows stay as they are.
\<close>

theorem execution_gate_contract_witness:
  "fst (acquireMasterLock 5000 ''cd34ab12'' Resolved gated_state) = False \<and>
   Lock (snd (acquireMasterLock 5000 ''cd34ab12'' Resolved gated_state)) =
     [new_lock ''execution_lock'' ''execution'' ''instance_B'' 0]"
proof -
  have "findOne (\<lambda>l. lock_type l = ''execution'' \<and>
                last_heartbeat l > 5000 - GLOBAL_LOCK_TIMEOUT) (Lock gated_state) =
          Some (0, new_lock ''execution_lock'' ''execution'' ''instance_B'' 0) \<and>
        instance_id (new_lock ''execution_lock'' ''execution'' ''instance_B'' 0) \<noteq>
          instanceId gated_state"
    by (simp add: gated_state_def idle_state_def new_lock_def GLOBAL_LOCK_TIMEOUT_def)
  with execution_gate_contract [where s = gated_state and now = 5000 and i = 0
      and l = "new_lock ''execution_lock'' ''execution'' ''instance_B'' 0"
      and uuid = "''cd34ab12''" and chan = Resolved]
  have "fst (acquireMasterLock 5000 ''cd34ab12'' Resolved gated_state) = False \<and>
        Lock (snd (acquireMasterLock 5000 ''cd34ab12'' Resolved gated_state)) = Lock gated_state"
    by blast
  then show ?thesis by (simp add: gated_state_def)
qed

subsection \<open>The time to live of a lease\<close>



subsection \<open>The application manager and the lease manager\<close>

lemma more_app_fields:
  "state.more x = state.more y \<Longrightarrow>
     calls x = calls y \<and> lastConnectionAttemptTime x = lastConnectionAttemptTime y \<and>
     isShuttingDown x = isShuttingDown y"
  by (cases x, cases y) simp

lemma acquireTaskLock_more:
  "state.more (snd (acquireTaskLock tn ttl now uuid s)) = state.more s"
  by (simp add: acquireTaskLock_def Let_def split: option.splits prod.splits)

lemma releaseTaskLock_more:
  "state.more (snd (releaseTaskLock tn lid s)) = state.more s"
  by (simp add: releaseTaskLock_def split: prod.splits)

lemma testTelegramConnection_more:
  "state.more (snd (testTelegramConnection now uuid chan s)) = state.more s"
proof -
  obtain b l s1 where acq: "acquireTaskLock ''telegram_test'' 20000 now uuid s = ((b, l), s1)"
    by (metis prod.exhaust)
  from acquireTaskLock_more [of "''telegram_test''" 20000 now uuid s] acq
  have "state.more s1 = state.more s" by simp
  then show ?thesis
    by (simp add: testTelegramConnection_def acq Let_def releaseTaskLock_more
        split: option.splits getMe_outcome.splits)
qed

lemma acquireExecutionLock_more:
  "state.more (snd (acquireExecutionLock now uuid chan s)) = state.more s"
proof -
  obtain ok s1 where probe: "testTelegramConnection now uuid chan s = (ok, s1)"
    by (metis prod.exhaust)
  from testTelegramConnection_more [of now uuid chan s] probe
  have "state.more s1 = state.more s" by simp
  then show ?thesis
    by (simp add: acquireExecutionLock_def probe Let_def createLockFile_def
        split: option.splits)
qed

lemma acquisition_times_append:
  "acquisition_times (cs @ ds) = acquisition_times cs @ acquisition_times ds"
  by (induction cs rule: acquisition_times.induct) simp_all

subsection \<open>The cooldown between attempts on the execution lease\<close>

lemma AppManager_acquireExecutionLock_log:
  "calls (AppManager_acquireExecutionLock now rnd uuid chan a) =
     (if \<not> isShuttingDown a \<and> \<not> now - lastConnectionAttemptTime a < 30000
      then calls a @ [LockManager_acquireExecutionLock now] else calls a) \<and>
   lastConnectionAttemptTime (AppManager_acquireExecutionLock now rnd uuid chan a) =
     (if \<not> isShuttingDown a \<and> \<not> now - lastConnectionAttemptTime a < 30000
      then now else lastConnectionAttemptTime a) \<and>
   isShuttingDown (AppManager_acquireExecutionLock now rnd uuid chan a) = isShuttingDown a"
proof -
  let ?a2 = "a\<lparr>lastConnectionAttemptTime := now,
               calls := calls a @ [LockManager_acquireExecutionLock now]\<rparr>"
  obtain ok a3 where acq: "acquireExecutionLock now uuid chan ?a2 = (ok, a3)"
    by (metis prod.exhaust)
  from acquireExecutionLock_more [of now uuid chan ?a2] acq
  have "state.more a3 = state.more ?a2" by simp
  from more_app_fields [OF this]
  have a3: "calls a3 = calls a @ [LockManager_acquireExecutionLock now]"
    "lastConnectionAttemptTime a3 = now" "isShuttingDown a3 = isShuttingDown a"
    by simp_all
  show ?thesis
    using a3 acq
    by (simp add: AppManager_acquireExecutionLock_def Let_def CONNECTION_ATTEMPT_COOLDOWN_def
        setTimeout_def startLockCheck_def startExecutionLockHeartbeat_def setInterval_def
        clearInterval_def split: option.splits prod.splits)
qed

lemma AppManager_acquireExecutionLock_too_soon:
  assumes "\<not> isShuttingDown a" "now - lastConnectionAttemptTime a < 30000"
  shows "AppManager_acquireExecutionLock now rnd uuid chan a =
           a\<lparr>timeouts := timeouts a @
                [(real_of_int (30000 - (now - lastConnectionAttemptTime a)) + rnd * 5000,
                  RetryAcquireExecutionLock)]\<rparr>"
  using assms
  by (simp add: AppManager_acquireExecutionLock_def Let_def CONNECTION_ATTEMPT_COOLDOWN_def
      setTimeout_def)

lemma acquireExecutionLock_run_spaced:
  assumes "sorted_wrt (\<lambda>t u. u - t \<ge> 30000) (acquisition_times (calls a))"
      and "\<forall>t\<in>set (acquisition_times (calls a)). t \<le> lastConnectionAttemptTime a"
  shows "sorted_wrt (\<lambda>t u. u - t \<ge> 30000)
           (acquisition_times (calls (acquireExecutionLock_run invocations a)))"
  using assms
proof (induction invocations arbitrary: a)
  case Nil
  then show ?case by simp
next
  case (Cons inv rest)
  obtain now rnd uuid chan where inv: "inv = (now, rnd, uuid, chan)"
    by (metis prod.exhaust)
  let ?a' = "AppManager_acquireExecutionLock now rnd uuid chan a"
  note log = AppManager_acquireExecutionLock_log [of now rnd uuid chan a]
  have "sorted_wrt (\<lambda>t u. u - t \<ge> 30000) (acquisition_times (calls ?a')) \<and>
        (\<forall>t\<in>set (acquisition_times (calls ?a')). t \<le> lastConnectionAttemptTime ?a')"
  proof (cases "\<not> isShuttingDown a \<and> \<not> now - lastConnectionAttemptTime a < 30000")
    case True
    with log have c: "calls ?a' = calls a @ [LockManager_acquireExecutionLock now]"
      and l: "lastConnectionAttemptTime ?a' = now"
      by simp_all
    from True Cons.prems(2) have "\<forall>t\<in>set (acquisition_times (calls a)). now - t \<ge> 30000"
      by fastforce
    with Cons.prems(1) show ?thesis
      unfolding c l acquisition_times_append by (auto simp: sorted_wrt_append)
  next
    case False
    with log have "calls ?a' = calls a" "lastConnectionAttemptTime ?a' = lastConnectionAttemptTime a"
      by auto
    with Cons.prems show ?thesis by simp
  qed
  then show ?case
    unfolding inv acquireExecutionLock_run.simps by (intro Cons.IH) simp_all
qed

text \<open>
  Claim C8. When \<open>AppManager.acquireExecutionLock\<close> is invoked less than 30000
  ms after the recorded attempt, it makes no call of
  \<open>LockManager.acquireExecutionLock\<close>, and changes nothing but the list of
  pending timeouts; unless the instance is shutting down, it schedules itself
  again, with a delay of at least the remaining wait (\<open>Math.random()\<close> is not
  negative). And in every run of invocations that starts with an empty call
  log, any two calls of \<open>LockManager.acquireExecutionLock\<close> are at least 30000
  ms apart.
\<close>

theorem cooldown_contract:
  "(now - lastConnectionAttemptTime a < 30000 \<longrightarrow>
      calls (AppManager_acquireExecutionLock now rnd uuid chan a) = calls a \<and>
      AppManager_acquireExecutionLock now rnd uuid chan a =
        a\<lparr>timeouts := timeouts (AppManager_acquireExecutionLock now rnd uuid chan a)\<rparr>) \<and>
   (\<not> isShuttingDown a \<and> now - lastConnectionAttemptTime a < 30000 \<and> 0 \<le> rnd \<longrightarrow>
      (\<exists>delay. AppManager_acquireExecutionLock now rnd uuid chan a =
                 a\<lparr>timeouts := timeouts a @ [(delay, RetryAcquireExecutionLock)]\<rparr> \<and>
               delay \<ge> real_of_int (30000 - (now - lastConnectionAttemptTime a)))) \<and>
   (acquisition_times (calls a) = [] \<longrightarrow>
      (\<forall>i j. i < j \<and>
             j < length (acquisition_times (calls (acquireExecutionLock_run invocations a))) \<longrightarrow>
             acquisition_times (calls (acquireExecutionLock_run invocations a)) ! j -
             acquisition_times (calls (acquireExecutionLock_run invocations a)) ! i \<ge> 30000))"
proof (intro conjI impI allI)
  assume soon: "now - lastConnectionAttemptTime a < 30000"
  then show "calls (AppManager_acquireExecutionLock now rnd uuid chan a) = calls a"
    by (simp add: AppManager_acquireExecutionLock_log)
  from soon show "AppManager_acquireExecutionLock now rnd uuid chan a =
        a\<lparr>timeouts := timeouts (AppManager_acquireExecutionLock now rnd uuid chan a)\<rparr>"
    by (cases "isShuttingDown a")
       (simp_all add: AppManager_acquireExecutionLock_too_soon,
        simp add: AppManager_acquireExecutionLock_def)
next
  assume a: "\<not> isShuttingDown a \<and> now - lastConnectionAttemptTime a < 30000 \<and> 0 \<le> rnd"
  then have "0 \<le> rnd * 5000" by simp
  with a show "\<exists>delay. AppManager_acquireExecutionLock now rnd uuid chan a =
                 a\<lparr>timeouts := timeouts a @ [(delay, RetryAcquireExecutionLock)]\<rparr> \<and>
               delay \<ge> real_of_int (30000 - (now - lastConnectionAttemptTime a))"
    by (intro exI [of _ "real_of_int (30000 - (now - lastConnectionAttemptTime a)) + rnd * 5000"])
       (simp add: AppManager_acquireExecutionLock_too_soon)
next
  fix i j
  assume empty: "acquisition_times (calls a) = []"
    and ij: "i < j \<and>
             j < length (acquisition_times (calls (acquireExecutionLock_run invocations a)))"
  from empty have "sorted_wrt (\<lambda>t u. u - t \<ge> 30000)
           (acquisition_times (calls (acquireExecutionLock_run invocations a)))"
    by (intro acquireExecutionLock_run_spaced) simp_all
  with ij show "acquisition_times (calls (acquireExecutionLock_run invocations a)) ! j -
             acquisition_times (calls (acquireExecutionLock_run invocations a)) ! i \<ge> 30000"
    by (simp add: sorted_wrt_iff_nth_less)
qed

text \<open>
  Ten seconds after an attempt at time 100000, with \<open>Math.random()\<close> at one
  half, the manager only schedules itself again, 22500 ms later. In a run of
  invocations at 100000, 110000 and 130000 on the fresh manager, the lease
  manager is called at 100000 and at 130000, 30000 ms apart.
\<close>

theorem cooldown_contract_witness:
  "AppManager_acquireExecutionLock 110000 (1 / 2) ''ab12cd34'' Resolved
       (idle_app\<lparr>lastConnectionAttemptTime := 100000\<rparr>) =
     idle_app\<lparr>lastConnectionAttemptTime := 100000,
              timeouts := [(22500, RetryAcquireExecutionLock)]\<rparr> \<and>
   acquisition_times (calls (acquireExecutionLock_run
       [(100000, 0, ''ab12cd34'', Resolved), (110000, 1 / 2, ''cd34ab12'', Resolved),
        (130000, 0, ''12cd34ab'', Resolved)] idle_app)) = [100000, 130000] \<and>
   acquisition_times (calls (acquireExecutionLock_run
       [(100000, 0, ''ab12cd34'', Resolved), (110000, 1 / 2, ''cd34ab12'', Resolved),
        (130000, 0, ''12cd34ab'', Resolved)] idle_app)) ! 1 -
   acquisition_times (calls (acquireExecutionLock_run
       [(100000, 0, ''ab12cd34'', Resolved), (110000, 1 / 2, ''cd34ab12'', Resolved),
        (130000, 0, ''12cd34ab'', Resolved)] idle_app)) ! 0 \<ge> 30000"
proof -
  let ?a = "idle_app\<lparr>lastConnectionAttemptTime := 100000\<rparr>"
  let ?run = "acquireExecutionLock_run
       [(100000, 0, ''ab12cd34'', Resolved), (110000, 1 / 2, ''cd34ab12'', Resolved),
        (130000, 0, ''12cd34ab'', Resolved)] idle_app"
  have pre: "\<not> isShuttingDown ?a \<and> 110000 - lastConnectionAttemptTime ?a < 30000 \<and>
             (0::real) \<le> 1 / 2"
    by (simp add: idle_app_def)
  with cooldown_contract [where a = ?a and now = 110000 and rnd = "1 / 2"
      and uuid = "''ab12cd34''" and chan = Resolved]
  obtain delay where "AppManager_acquireExecutionLock 110000 (1 / 2) ''ab12cd34'' Resolved ?a =
      ?a\<lparr>timeouts := timeouts ?a @ [(delay, RetryAcquireExecutionLock)]\<rparr>"
    by blast
  moreover
  have "AppManager_acquireExecutionLock 110000 (1 / 2) ''ab12cd34'' Resolved ?a =
      ?a\<lparr>timeouts := timeouts ?a @ [(22500, RetryAcquireExecutionLock)]\<rparr>"
    using pre by (simp add: AppManager_acquireExecutionLock_too_soon)
  ultimately have 1: "AppManager_acquireExecutionLock 110000 (1 / 2) ''ab12cd34'' Resolved ?a =
      idle_app\<lparr>lastConnectionAttemptTime := 100000,
               timeouts := [(22500, RetryAcquireExecutionLock)]\<rparr>"
    by (simp add: idle_app_def)
  have 2: "acquisition_times (calls ?run) = [100000, 130000]"
    by (simp add: AppManager_acquireExecutionLock_log idle_app_def)
  have "acquisition_times (calls idle_app) = []"
    by (simp add: idle_app_def)
  with cooldown_contract [where a = idle_app and invocations =
       "[(100000, 0, ''ab12cd34'', Resolved), (110000, 1 / 2, ''cd34ab12'', Resolved),
         (130000, 0, ''12cd34ab'', Resolved)]"]
  have "\<forall>i j. i < j \<and> j < length (acquisition_times (calls ?run)) \<longrightarrow>
          acquisition_times (calls ?run) ! j - acquisition_times (calls ?run) ! i \<ge> 30000"
    by blast
  moreover have "(0::nat) < 1 \<and> 1 < length (acquisition_times (calls ?run))"
    unfolding 2 by simp
  ultimately have 3: "acquisition_times (calls ?run) ! 1 - acquisition_times (calls ?run) ! 0
      \<ge> 30000"
    by blast
  from 1 2 3 show ?thesis by blast
qed

subsection \<open>The steps of the shutdown\<close>













subsection \<open>Shutting down once\<close>






end
